theory Spec2Isabelle
  imports Complex_Main "HOL-Library.Sublist"
begin

section \<open>Conversation lifecycle guard\<close>

subsection \<open>Enumerations and the shared state record\<close>

text \<open>
  Modelled from the spec: the enum declarations \<open>ConfirmationState\<close>,
  \<open>ConversationEndEntity\<close> and \<open>ConversationState\<close> are imported by the sources
  (\<open>common/Constants\<close>, \<open>contexts/common/ConversationState\<close>) but their
  declarations are not part of the repository files at hand. The members are the ones
  the spec lists in its data model; the members it leaves open (\<open>System(...)\<close>,
  "plus others unspecified") carry a tag so that every further member is a value of its own.
\<close>

datatype ConfirmationState = NotSet | Ok | Cancel

datatype ConversationEndEntity = NotSet | Customer | Agent | System string

datatype ConversationState =
  Loading | Active | InActive | Closed | Postchat | PostchatLoading | Error
  | OtherConversationState string

text \<open>
  The state container. The sources read every field through optional chaining
  (\<open>state?.appStates?.conversationState\<close>), and the test file builds state objects that
  leave fields out, so each level is an \<open>option\<close>: \<open>None\<close> is JavaScript's
  \<open>undefined\<close>.
\<close>

record AppStates =
  conversationEndedBy :: "ConversationEndEntity option"
  conversationState :: "ConversationState option"
  startChatFailed :: "bool option"
  isMinimized :: "bool option"
  previousElementIdOnFocusBeforeModalOpen :: "string option"

record DomainStates =
  confirmationState :: "ConfirmationState option"

record UiStates =
  showConfirmationPane :: "bool option"

record LiveChatWidgetContext =
  domainStates :: "DomainStates option"
  appStates :: "AppStates option"
  uiStates :: "UiStates option"

text \<open>\<open>a?.f\<close>: \<open>undefined\<close> when \<open>a\<close> is, the field otherwise.\<close>

definition chain :: "'a option \<Rightarrow> ('a \<Rightarrow> 'b option) \<Rightarrow> 'b option" where
  "chain a f = (case a of None \<Rightarrow> None | Some x \<Rightarrow> f x)"

text \<open>Truthiness of an optional boolean: \<open>undefined\<close> and \<open>false\<close> are falsy.\<close>

definition truthy :: "bool option \<Rightarrow> bool" where
  "truthy b = (b = Some True)"

subsection \<open>The guard expressions (raceConditionPrevention.spec.ts)\<close>

text \<open>
  \<^verbatim>\<open>
  inMemState?.appStates?.conversationEndedBy !== ConversationEndEntity.NotSet ||
  inMemState?.appStates?.conversationState === ConversationState.PostchatLoading ||
  inMemState?.appStates?.conversationState === ConversationState.Postchat ||
  (!isPersistent && inMemState?.appStates?.conversationState === ConversationState.InActive)
  \<close>
\<close>

definition shouldPreventStartChat :: "LiveChatWidgetContext option \<Rightarrow> bool \<Rightarrow> bool" where
  "shouldPreventStartChat inMemState isPersistent =
     (chain (chain inMemState appStates) conversationEndedBy \<noteq> Some ConversationEndEntity.NotSet \<or>
      chain (chain inMemState appStates) conversationState = Some PostchatLoading \<or>
      chain (chain inMemState appStates) conversationState = Some Postchat \<or>
      (\<not> isPersistent \<and> chain (chain inMemState appStates) conversationState = Some InActive))"

text \<open>
  \<^verbatim>\<open>
  inMemoryState?.appStates?.conversationState === ConversationState.Loading &&
    !inMemoryState?.appStates?.startChatFailed
  \<close>
\<close>

definition shouldPreventEndChat :: "LiveChatWidgetContext option \<Rightarrow> bool" where
  "shouldPreventEndChat inMemoryState =
     (chain (chain inMemoryState appStates) conversationState = Some Loading \<and>
      \<not> truthy (chain (chain inMemoryState appStates) startChatFailed))"

subsection \<open>Auto-dismissal of the confirmation pane (ConfirmationPaneStateful.tsx)\<close>

datatype LiveChatWidgetAction =
  SET_CONFIRMATION_STATE ConfirmationState
  | SET_SHOW_CONFIRMATION bool
  | SET_PREVIOUS_FOCUSED_ELEMENT_ID "string option"

text \<open>
  What a run of the effect does to the outside: it releases the focus trap
  (\<open>setTabIndices(elements, initialTabIndexMap, true)\<close>) and dispatches actions. The
  effects are returned in the order the code performs them.
\<close>

datatype Effect = SetTabIndices bool | Dispatch LiveChatWidgetAction

definition endChatCompleted :: "LiveChatWidgetContext option \<Rightarrow> bool" where
  "endChatCompleted state =
     (let conv = chain (chain state appStates) conversationState in
      conv = Some Closed \<or>
      conv = Some PostchatLoading \<or>
      conv = Some Postchat \<or>
      conv = Some Error \<or>
      (conv = Some Loading \<and> truthy (chain (chain state appStates) startChatFailed)))"

definition autoDismissEffect :: "LiveChatWidgetContext option \<Rightarrow> Effect list" where
  "autoDismissEffect state =
     (if \<not> truthy (chain (chain state uiStates) showConfirmationPane) then []
      else if chain (chain state domainStates) confirmationState \<noteq> Some Ok then []
      else if \<not> endChatCompleted state then []
      else [SetTabIndices True, Dispatch (SET_SHOW_CONFIRMATION False)])"

text \<open>
  When the effect runs. It is declared with the dependency list
  \<^verbatim>\<open>[conversationState, showConfirmationPane, confirmationState]\<close>: React runs it
  after the first render of the component and after every later render in which an entry
  of the list differs from its value at the render before. \<open>startChatFailed\<close> is read
  by the body but is no entry of the list. \<open>previous\<close> is the state at the render
  before, \<open>None\<close> at the first render.
\<close>

definition autoDismissDependencies ::
  "LiveChatWidgetContext option
    \<Rightarrow> ConversationState option \<times> bool option \<times> ConfirmationState option" where
  "autoDismissDependencies state =
     (chain (chain state appStates) conversationState,
      chain (chain state uiStates) showConfirmationPane,
      chain (chain state domainStates) confirmationState)"

definition autoDismissOnRender ::
  "LiveChatWidgetContext option option \<Rightarrow> LiveChatWidgetContext option \<Rightarrow> Effect list" where
  "autoDismissOnRender previous state =
     (case previous of
        None \<Rightarrow> autoDismissEffect state
      | Some before \<Rightarrow>
          if autoDismissDependencies before = autoDismissDependencies state then []
          else autoDismissEffect state)"

text \<open>A state object with every level present, as the application holds it.\<close>

definition mkState ::
  "ConversationEndEntity \<Rightarrow> ConversationState \<Rightarrow> bool \<Rightarrow> ConfirmationState \<Rightarrow> bool
    \<Rightarrow> LiveChatWidgetContext option" where
  "mkState endedBy conv failed conf shown =
     Some \<lparr>domainStates = Some \<lparr>confirmationState = Some conf\<rparr>,
           appStates = Some \<lparr>conversationEndedBy = Some endedBy, conversationState = Some conv,
             startChatFailed = Some failed, isMinimized = Some False,
             previousElementIdOnFocusBeforeModalOpen = None\<rparr>,
           uiStates = Some \<lparr>showConfirmationPane = Some shown\<rparr>\<rparr>"

section \<open>CSAT scoring (SentimentAnalysisService.ts)\<close>

subsection \<open>JavaScript values\<close>

text \<open>
  Strings are lists of characters, one \<open>char\<close> for each code unit; a string is
  truthy when it is present and not empty. Scores are integers (every score the service
  builds is a literal, the value of \<open>parseInt\<close> or the value of \<open>Math.round\<close>).
  Confidences are reals, and a literal such as \<open>0.8\<close> is the number it is written as:
  the service only compares confidences and takes their maximum, which is exact on
  doubles. The survey blend multiplies and adds, and that arithmetic is modelled on
  doubles, below.
\<close>

definition truthyStr :: "string option \<Rightarrow> bool" where
  "truthyStr s = (s \<noteq> None \<and> s \<noteq> Some [])"

text \<open>\<open>s.includes(search)\<close>: \<open>search\<close> occurs in \<open>s\<close> as a contiguous run.\<close>

definition includes' :: "string \<Rightarrow> string \<Rightarrow> bool" where
  "includes' s search = sublist search s"

text \<open>
  Double-precision arithmetic. A finite double is a rational number, and an operation on
  doubles returns the double nearest to its exact result, a tie going to the even
  significand. \<open>fl\<close> is that rounding: the magnitude is scaled by a power of two into
  the range from \<open>2 ^ 52\<close> up to \<open>2 ^ 53\<close>, where the doubles are the integers, rounded to
  an integer, and scaled back. The scaling stops after 1074 doublings, which is the fixed
  grid of the subnormal numbers, and after 971 halvings, the grid of the largest binade;
  a result beyond that binade would be \<open>Infinity\<close>, which the blend of integer scores
  with \<open>0.7\<close> and \<open>0.3\<close> never reaches.
\<close>

definition roundTiesToEven :: "rat \<Rightarrow> int" where
  "roundTiesToEven x =
     (let f = \<lfloor>x\<rfloor>; d = x - of_int f in
      if d < 1 / 2 then f
      else if 1 / 2 < d then f + 1
      else if even f then f else f + 1)"

fun doublings :: "nat \<Rightarrow> rat \<Rightarrow> nat" where
  "doublings 0 y = 0"
| "doublings (Suc n) y = (if y < 2 ^ 52 then Suc (doublings n (2 * y)) else 0)"

fun halvings :: "nat \<Rightarrow> rat \<Rightarrow> nat" where
  "halvings 0 y = 0"
| "halvings (Suc n) y = (if 2 ^ 53 \<le> y then Suc (halvings n (y / 2)) else 0)"

definition fl :: "rat \<Rightarrow> rat" where
  "fl x =
     (if x = 0 then 0
      else
        (let up = doublings 1074 \<bar>x\<bar>; down = halvings 971 \<bar>x\<bar> in
         of_int (roundTiesToEven (x * 2 ^ up / 2 ^ down)) * 2 ^ down / 2 ^ up))"

text \<open>\<open>a * b\<close> and \<open>a + b\<close> on doubles.\<close>

definition timesD :: "rat \<Rightarrow> rat \<Rightarrow> rat" where
  "timesD a b = fl (a * b)"

definition plusD :: "rat \<Rightarrow> rat \<Rightarrow> rat" where
  "plusD a b = fl (a + b)"

text \<open>
  \<open>Math.round\<close>: the nearest integer, a tie going up. It is exact on every finite
  double.
\<close>

definition Math_round :: "rat \<Rightarrow> int" where
  "Math_round x = \<lfloor>x + 1 / 2\<rfloor>"

text \<open>\<open>s.toLowerCase()\<close>, on the code units below 256.\<close>

definition toLowerCaseChar :: "char \<Rightarrow> char" where
  "toLowerCaseChar c =
     (let n = (of_char c :: nat) in
      if (65 \<le> n \<and> n \<le> 90) \<or> (192 \<le> n \<and> n \<le> 214) \<or> (216 \<le> n \<and> n \<le> 222)
      then char_of (n + 32) else c)"

definition toLowerCase :: "string \<Rightarrow> string" where
  "toLowerCase s = map toLowerCaseChar s"

text \<open>
  \<open>parseInt(string)\<close> with no radix, after ECMAScript: leading white space is dropped,
  then an optional sign, then \<open>0x\<close> or \<open>0X\<close> selects radix 16; the longest run of
  digits of the radix is read, and whatever follows is ignored. \<open>None\<close> is \<open>NaN\<close>
  (no digit to read). White space is taken among the code units below 256.
\<close>

definition isStrWhiteSpaceChar :: "char \<Rightarrow> bool" where
  "isStrWhiteSpaceChar c = ((of_char c :: nat) \<in> set [9, 10, 11, 12, 13, 32, 160])"

definition digitValue :: "char \<Rightarrow> nat option" where
  "digitValue c =
     (let n = (of_char c :: nat) in
      if 48 \<le> n \<and> n \<le> 57 then Some (n - 48)
      else if 97 \<le> n \<and> n \<le> 122 then Some (n - 87)
      else if 65 \<le> n \<and> n \<le> 90 then Some (n - 55)
      else None)"

fun radixDigits :: "nat \<Rightarrow> string \<Rightarrow> nat list" where
  "radixDigits R [] = []"
| "radixDigits R (c # cs) =
     (case digitValue c of
        None \<Rightarrow> []
      | Some d \<Rightarrow> if d < R then d # radixDigits R cs else [])"

definition mathInt :: "nat \<Rightarrow> nat list \<Rightarrow> nat" where
  "mathInt R Z = foldl (\<lambda>acc d. acc * R + d) 0 Z"

definition parseInt :: "string \<Rightarrow> int option" where
  "parseInt inputString =
     (let S = dropWhile isStrWhiteSpaceChar inputString;
          sign = (if take 1 S = ''-'' then - 1 else 1 :: int);
          S1 = (if take 1 S = ''+'' \<or> take 1 S = ''-'' then drop 1 S else S);
          hex = (take 2 S1 = ''0x'' \<or> take 2 S1 = ''0X'');
          R = (if hex then 16 else 10);
          S2 = (if hex then drop 2 S1 else S1);
          Z = radixDigits R S2
      in if Z = [] then None else Some (sign * int (mathInt R Z)))"

subsection \<open>Interfaces\<close>

text \<open>
  The template strings of the \<open>reasoning\<close> field, kept as the template and the values
  it interpolates.
\<close>

datatype Reasoning =
  AzureTextAnalytics string real
  | CombinedAnalysis int int
  | BasedOnSurvey int
  | InvalidSurveyResponse

text \<open>
  The provider's per-document result (\<open>@azure/ai-language-text\<close>): an error result
  carries \<open>error\<close>, a success result a sentiment label and the three confidence scores.
\<close>

record ConfidenceScores =
  positive :: real
  negative :: real
  neutral :: real

record SentimentAnalysisResult =
  error' :: "string option"
  sentiment :: "string option"
  confidenceScores :: "ConfidenceScores option"

text \<open>
  A configuration object. Each key may be missing, or present with a value that may be
  \<open>undefined\<close>; reading a key gives \<open>undefined\<close> in either of the two cases, but
  object spread copies a present key even when its value is \<open>undefined\<close>.
\<close>

datatype 'a property = NoKey | Key "'a option"

fun get :: "'a property \<Rightarrow> 'a option" where
  "get NoKey = None"
| "get (Key v) = v"

record SentimentAnalysisConfig =
  endpoint :: "string property"
  apiKey :: "string property"
  timeout :: "nat property"
  enabled :: "bool property"
  useDefaultCredential :: "bool property"

record CopilotSurveyResponse =
  response :: string
  timestamp :: string
  conversationId :: "string option"
  userId :: "string option"
  botId :: "string option"
  confidence :: "real option"

record CSATResult =
  csatScore :: int
  confidence :: real
  sentiment :: string
  satisfactionLevel :: string
  reasoning :: "Reasoning option"
  surveyResponseIncluded :: "bool option"

record ChannelData =
  clientActivityID :: "string option"
  cci_trace_id :: "string option"

record ActivityFrom =
  id' :: "string option"

record DirectLineActivity =
  type' :: "string option"
  text' :: "string option"
  textFormat :: "string option"
  channelData :: "ChannelData option"
  cci_bot_id :: "string option"
  from' :: "ActivityFrom option"
  localTimestamp :: "string option"

datatype Sender = customer | agent | bot

record ChatMessage =
  content :: string
  sender :: Sender
  timestamp :: string

record Identity =
  displayName :: "string option"
  id' :: "string option"

record MessageFrom =
  user :: "Identity option"
  application :: "Identity option"

record SDKMessage =
  content :: "string option"
  text' :: "string option"
  messageType :: "string option"
  sender :: "string option"
  timestamp :: "string option"
  createdDateTime :: "string option"
  from' :: "MessageFrom option"
  tags :: "string option"
  isControlMessage :: "bool option"

subsection \<open>Score, label and sentiment\<close>

definition mapSentimentToSatisfaction :: "string \<Rightarrow> int \<Rightarrow> string" where
  "mapSentimentToSatisfaction sentiment' csatScore' =
     (if csatScore' = 5 then ''Very Satisfied''
      else if csatScore' = 4 then ''Satisfied''
      else if csatScore' = 3 then ''Neutral''
      else if csatScore' = 2 then ''Dissatisfied''
      else if csatScore' = 1 then ''Very Dissatisfied''
      else if sentiment' = ''positive'' then ''Satisfied''
      else if sentiment' = ''negative'' then ''Dissatisfied''
      else ''Neutral'')"

definition mapScoreToSentiment :: "int \<Rightarrow> string" where
  "mapScoreToSentiment score =
     (if score \<ge> 4 then ''positive'' else if score \<le> 2 then ''negative'' else ''neutral'')"

subsection \<open>Parsing the provider's response\<close>

text \<open>
  \<open>parseAzureSDKResponse\<close>. A missing or empty sentiment label returns \<open>null\<close>;
  reading a score of a missing \<open>confidenceScores\<close> throws, and the \<open>catch\<close> returns
  \<open>null\<close> as well.
\<close>

definition parseAzureSDKResponse :: "SentimentAnalysisResult option \<Rightarrow> CSATResult option" where
  "parseAzureSDKResponse result =
     (case chain result SentimentAnalysisResult.sentiment of
        None \<Rightarrow> None
      | Some label \<Rightarrow>
          if label = [] then None
          else
            (case chain result confidenceScores of
               None \<Rightarrow> None
             | Some scores \<Rightarrow>
                 (let sentiment = (if label = ''mixed'' then ''neutral'' else label);
                      confidence = max (positive scores) (max (negative scores) (neutral scores));
                      csatScore =
                        (if sentiment = ''positive'' then
                           (if positive scores > 0.8 then 5
                            else if positive scores > 0.6 then 4
                            else 4)
                         else if sentiment = ''negative'' then
                           (if negative scores > 0.8 then 1
                            else if negative scores > 0.6 then 2
                            else 2)
                         else 3)
                  in Some \<lparr>csatScore = csatScore,
                       confidence = confidence,
                       sentiment = sentiment,
                       satisfactionLevel = mapSentimentToSatisfaction sentiment csatScore,
                       reasoning = Some (AzureTextAnalytics sentiment (confidence * 100)),
                       surveyResponseIncluded = None\<rparr>)))"

subsection \<open>Survey responses\<close>

text \<open>\<open>/^[1-5]$/.test(text)\<close>: the whole text is one character from \<open>1\<close> to \<open>5\<close>.\<close>

fun test_1_to_5 :: "string \<Rightarrow> bool" where
  "test_1_to_5 [c] = (49 \<le> (of_char c :: nat) \<and> (of_char c :: nat) \<le> 53)"
| "test_1_to_5 _ = False"

definition isCopilotSurveyResponse :: "DirectLineActivity option \<Rightarrow> bool" where
  "isCopilotSurveyResponse activity =
     (chain activity type' = Some ''message'' \<and>
      truthyStr (chain (chain activity channelData) clientActivityID) \<and>
      truthyStr (chain activity cci_bot_id) \<and>
      truthyStr (chain activity DirectLineActivity.text') \<and>
      (case chain activity DirectLineActivity.text' of
         None \<Rightarrow> False
       | Some t \<Rightarrow> test_1_to_5 t) \<and>
      chain activity textFormat = Some ''plain'')"

text \<open>\<open>a || b\<close> on strings: \<open>a\<close> when it is truthy, \<open>b\<close> otherwise.\<close>

definition orElse :: "string option \<Rightarrow> string \<Rightarrow> string" where
  "orElse a b = (case a of None \<Rightarrow> b | Some x \<Rightarrow> if x = [] then b else x)"

text \<open>\<open>now\<close> is the value of \<open>new Date().toISOString()\<close> at the call.\<close>

definition extractSurveyResponse ::
  "string \<Rightarrow> DirectLineActivity option \<Rightarrow> CopilotSurveyResponse option" where
  "extractSurveyResponse now activity =
     (if \<not> isCopilotSurveyResponse activity then None
      else Some \<lparr>response = orElse (chain activity DirectLineActivity.text') [],
             timestamp = orElse (chain activity localTimestamp) now,
             conversationId = chain (chain activity channelData) cci_trace_id,
             userId = chain (chain activity DirectLineActivity.from') ActivityFrom.id',
             botId = chain activity cci_bot_id,
             confidence = Some 95\<rparr>)"

definition combineSentimentAndSurvey :: "CSATResult \<Rightarrow> CopilotSurveyResponse \<Rightarrow> CSATResult" where
  "combineSentimentAndSurvey sentimentResult surveyResponse =
     (case parseInt (response surveyResponse) of
        None \<Rightarrow> sentimentResult
      | Some surveyScore \<Rightarrow>
          if surveyScore < 1 \<or> surveyScore > 5 then sentimentResult
          else
            (let combinedScore =
                   Math_round
                     (plusD (timesD (of_int surveyScore) (fl (7 / 10)))
                            (timesD (of_int (csatScore sentimentResult)) (fl (3 / 10))));
                 finalScore = max 1 (min 5 combinedScore)
             in \<lparr>csatScore = finalScore,
                  confidence = max (CSATResult.confidence sentimentResult) 0.95,
                  sentiment = mapScoreToSentiment finalScore,
                  satisfactionLevel = mapSentimentToSatisfaction [] finalScore,
                  reasoning = Some (CombinedAnalysis surveyScore (csatScore sentimentResult)),
                  surveyResponseIncluded = Some True\<rparr>))"

definition createCSATFromSurvey :: "CopilotSurveyResponse \<Rightarrow> CSATResult" where
  "createCSATFromSurvey surveyResponse =
     (case parseInt (response surveyResponse) of
        None \<Rightarrow>
          \<lparr>csatScore = 3, confidence = 0.5, sentiment = ''neutral'',
           satisfactionLevel = ''Neutral'', reasoning = Some InvalidSurveyResponse,
           surveyResponseIncluded = Some True\<rparr>
      | Some surveyScore \<Rightarrow>
          if surveyScore < 1 \<or> surveyScore > 5 then
            \<lparr>csatScore = 3, confidence = 0.5, sentiment = ''neutral'',
             satisfactionLevel = ''Neutral'', reasoning = Some InvalidSurveyResponse,
             surveyResponseIncluded = Some True\<rparr>
          else
            \<lparr>csatScore = surveyScore,
             confidence = 0.95,
             sentiment = mapScoreToSentiment surveyScore,
             satisfactionLevel = mapSentimentToSatisfaction [] surveyScore,
             reasoning = Some (BasedOnSurvey surveyScore),
             surveyResponseIncluded = Some True\<rparr>)"

subsection \<open>Transcript: sender and text\<close>

definition determineSender :: "SDKMessage \<Rightarrow> Sender" where
  "determineSender message =
     (if (case tags message of None \<Rightarrow> False | Some t \<Rightarrow> includes' t ''FromCustomer'') \<or>
         chain (chain (SDKMessage.from' message) application) displayName = Some ''Customer''
      then customer
      else if (case tags message of None \<Rightarrow> False | Some t \<Rightarrow> includes' t ''public'')
      then agent
      else bot)"

text \<open>
  The repository holds a second service class, \<open>SentimentAnalyticsService\<close> (the
  document that follows \<open>FluentChatInputEnhanced.tsx\<close> in the sources), with a
  \<open>determineSender\<close> of its own over the same \<open>SDKMessage\<close>: tags, the application's
  display name, then the user's display name in lower case (\<open>bot\<close> or \<open>virtual\<close>
  gives bot, \<open>agent\<close> gives agent), then the message type and the sender field, and
  bot when nothing matches. \<open>fallbackSender\<close> is its last part, from the comment
  \<open>Fallback to original logic\<close> on.
\<close>

definition tagsInclude :: "SDKMessage \<Rightarrow> string \<Rightarrow> bool" where
  "tagsInclude message search =
     (case tags message of None \<Rightarrow> False | Some t \<Rightarrow> includes' t search)"

definition fallbackSender :: "SDKMessage \<Rightarrow> Sender" where
  "fallbackSender message =
     (if messageType message = Some ''customer'' \<or> SDKMessage.sender message = Some ''customer''
      then customer
      else if messageType message = Some ''agent'' \<or> SDKMessage.sender message = Some ''agent''
      then agent
      else bot)"

definition determineSender' :: "SDKMessage \<Rightarrow> Sender" where
  "determineSender' message =
     (if tagsInclude message ''FromCustomer'' \<or> tagsInclude message ''ChannelId-lcw''
      then customer
      else if chain (chain (SDKMessage.from' message) application) displayName = Some ''Customer''
      then customer
      else
        (case chain (chain (SDKMessage.from' message) user) displayName of
           None \<Rightarrow> fallbackSender message
         | Some name \<Rightarrow>
             if name = [] then fallbackSender message
             else
               (let lowered = toLowerCase name in
                if includes' lowered ''bot'' \<or> includes' lowered ''virtual'' \<or>
                   includes' lowered ''power virtual agents''
                then bot
                else if includes' lowered ''agent'' \<or> name = ''__agent__''
                then agent
                else fallbackSender message)))"

fun senderText :: "Sender \<Rightarrow> string" where
  "senderText customer = ''customer''"
| "senderText agent = ''agent''"
| "senderText bot = ''bot''"

definition MAX_TEXT_LENGTH :: nat where
  "MAX_TEXT_LENGTH = 5000"

text \<open>The line of one message: \<^verbatim>\<open>`[${message.sender}]: ${message.content}\n`\<close>.\<close>

definition messageText :: "ChatMessage \<Rightarrow> string" where
  "messageText message =
     ''['' @ senderText (ChatMessage.sender message) @ '']: '' @ ChatMessage.content message
       @ ''\<newline>''"

text \<open>
  The loop of \<open>callSentimentAnalysis\<close> that builds \<open>conversationText\<close>. The source's
  index \<open>i\<close> runs from \<open>chatTranscript.length - 1\<close> down to \<open>0\<close>; the counter here is
  \<open>i + 1\<close>, so that \<open>0\<close> is the exit of the loop and \<open>Suc i\<close> the iteration at index
  \<open>i\<close>. The \<open>else\<close> branch is the \<open>break\<close>.
\<close>

fun conversationTextLoop :: "ChatMessage list \<Rightarrow> nat \<Rightarrow> string \<Rightarrow> string" where
  "conversationTextLoop chatTranscript 0 conversationText = conversationText"
| "conversationTextLoop chatTranscript (Suc i) conversationText =
     (if i = length chatTranscript - 1 \<or>
         length conversationText + length (messageText (chatTranscript ! i)) \<le> MAX_TEXT_LENGTH
      then conversationTextLoop chatTranscript i
             (messageText (chatTranscript ! i) @ conversationText)
      else conversationText)"

definition buildConversationText :: "ChatMessage list \<Rightarrow> string" where
  "buildConversationText chatTranscript =
     conversationTextLoop chatTranscript (length chatTranscript) []"

subsection \<open>The pipeline\<close>

text \<open>
  The collaborators are parameters. \<open>newClient\<close> is the outcome of
  \<open>new TextAnalysisClient(...)\<close>: \<open>None\<close> when the constructor throws, otherwise the
  client's \<open>analyze\<close> on one document, which yields the list of results or \<open>None\<close> when
  the call throws or rejects. \<open>chatTranscript\<close> is what \<open>getChatTranscript\<close> returned
  (always an array, empty on any failure). Telemetry is not modelled.
\<close>

type_synonym TextAnalysisClient = "string \<Rightarrow> SentimentAnalysisResult list option"

definition DEFAULT_CONFIG :: SentimentAnalysisConfig where
  "DEFAULT_CONFIG =
     \<lparr>endpoint = Key (Some ''https://chat-sentiment-analytics.cognitiveservices.azure.com''),
      apiKey = Key (Some ''<API_KEY>''),
      timeout = Key (Some 10000),
      enabled = Key (Some True),
      useDefaultCredential = Key (Some False)\<rparr>"

text \<open>
  \<open>{ ...DEFAULT_CONFIG, ...config }\<close>: every key that \<open>config\<close> has wins, with the
  value it has there; a missing \<open>config\<close> adds nothing.
\<close>

definition spreadKey :: "'a property \<Rightarrow> 'a property \<Rightarrow> 'a property" where
  "spreadKey d c = (case c of NoKey \<Rightarrow> d | Key v \<Rightarrow> Key v)"

definition spread ::
  "SentimentAnalysisConfig \<Rightarrow> SentimentAnalysisConfig option \<Rightarrow> SentimentAnalysisConfig" where
  "spread d config =
     (case config of
        None \<Rightarrow> d
      | Some c \<Rightarrow>
          \<lparr>endpoint = spreadKey (endpoint d) (endpoint c),
           apiKey = spreadKey (apiKey d) (apiKey c),
           timeout = spreadKey (timeout d) (timeout c),
           enabled = spreadKey (enabled d) (enabled c),
           useDefaultCredential =
             spreadKey (useDefaultCredential d) (useDefaultCredential c)\<rparr>)"

definition createSentimentClient ::
  "TextAnalysisClient option \<Rightarrow> SentimentAnalysisConfig \<Rightarrow> TextAnalysisClient option" where
  "createSentimentClient newClient config =
     (if \<not> truthyStr (get (endpoint config)) then None else newClient)"

definition callSentimentAnalysis ::
  "TextAnalysisClient option \<Rightarrow> ChatMessage list \<Rightarrow> SentimentAnalysisConfig
    \<Rightarrow> CSATResult option" where
  "callSentimentAnalysis newClient chatTranscript config =
     (case createSentimentClient newClient config of
        None \<Rightarrow> None
      | Some client \<Rightarrow>
          (case client (buildConversationText chatTranscript) of
             None \<Rightarrow> None
           | Some results \<Rightarrow>
               (case results of
                  [] \<Rightarrow> None
                | result # _ \<Rightarrow>
                    if error' result \<noteq> None then None
                    else parseAzureSDKResponse (Some result))))"

definition analyzeSentiments ::
  "TextAnalysisClient option \<Rightarrow> ChatMessage list \<Rightarrow> SentimentAnalysisConfig option
    \<Rightarrow> CSATResult option" where
  "analyzeSentiments newClient chatTranscript config =
     (let effectiveConfig = spread DEFAULT_CONFIG config in
      if \<not> truthy (get (enabled effectiveConfig)) \<or>
         \<not> truthyStr (get (endpoint effectiveConfig)) \<or>
         \<not> truthyStr (get (apiKey effectiveConfig))
      then None
      else if chatTranscript = [] then None
      else callSentimentAnalysis newClient chatTranscript effectiveConfig)"

definition analyzeSentimentWithSurvey ::
  "TextAnalysisClient option \<Rightarrow> ChatMessage list \<Rightarrow> CopilotSurveyResponse option
    \<Rightarrow> SentimentAnalysisConfig option \<Rightarrow> CSATResult option" where
  "analyzeSentimentWithSurvey newClient chatTranscript copilotSurveyResponse config =
     (let sentimentResult = analyzeSentiments newClient chatTranscript config in
      case copilotSurveyResponse of
        None \<Rightarrow> sentimentResult
      | Some survey \<Rightarrow>
          (case sentimentResult of
             Some ai \<Rightarrow> Some (combineSentimentAndSurvey ai survey)
           | None \<Rightarrow> Some (createCSATFromSurvey survey)))"

subsection \<open>The specification's wording, for comparison\<close>

text \<open>
  A survey response is numeric, in the words of the specification, when it is written as
  a number; a response in which other characters follow the digits, such as \<open>5abc\<close>, is
  not. \<open>isNumeral\<close> is the plain case the comparison needs: digits only, at least one.
\<close>

definition isNumeral :: "string \<Rightarrow> bool" where
  "isNumeral s =
     (s \<noteq> [] \<and> list_all (\<lambda>c. 48 \<le> (of_char c :: nat) \<and> (of_char c :: nat) \<le> 57) s)"

text \<open>The number a numeral stands for, read digit by digit in base ten.\<close>

definition numeralValue :: "string \<Rightarrow> nat" where
  "numeralValue s = foldl (\<lambda>acc c. acc * 10 + ((of_char c :: nat) - 48)) 0 s"

text \<open>
  The satisfaction label that belongs to a score (5 Very Satisfied, 4 Satisfied,
  3 Neutral, 2 Dissatisfied, 1 Very Dissatisfied), and the well-formedness of a result:
  a score from 1 to 5 carrying its label.
\<close>

definition labelOfScore :: "int \<Rightarrow> string" where
  "labelOfScore score =
     [''Very Dissatisfied'', ''Dissatisfied'', ''Neutral'', ''Satisfied'', ''Very Satisfied'']
       ! nat (score - 1)"

definition wellScored :: "CSATResult \<Rightarrow> bool" where
  "wellScored r =
     (1 \<le> csatScore r \<and> csatScore r \<le> 5 \<and> satisfactionLevel r = labelOfScore (csatScore r))"

subsection \<open>Binades met by the blend\<close>

text \<open>
  The number of binary digits a double has after the point, for a magnitude from 1/4 up
  to 16; it is the number of doublings \<open>fl\<close> performs there.
\<close>

definition fractionBits :: "rat \<Rightarrow> nat" where
  "fractionBits y =
     (if y < 1 / 2 then 54 else if y < 1 then 53 else if y < 2 then 52
      else if y < 4 then 51 else if y < 8 then 50 else 49)"

text \<open>The weighted sum of the blend, as \<open>combineSentimentAndSurvey\<close> computes it.\<close>

definition weighted :: "int \<Rightarrow> int \<Rightarrow> rat" where
  "weighted surveyScore aiScore =
     plusD (timesD (of_int surveyScore) (fl (7 / 10))) (timesD (of_int aiScore) (fl (3 / 10)))"

subsection \<open>Sample inputs\<close>

definition sampleActivity :: "string \<Rightarrow> DirectLineActivity option" where
  "sampleActivity t =
     Some \<lparr>type' = Some ''message'', text' = Some t, textFormat = Some ''plain'',
           channelData = Some \<lparr>clientActivityID = Some ''a1'', cci_trace_id = None\<rparr>,
           cci_bot_id = Some ''bot-7'', from' = None, localTimestamp = None\<rparr>"

definition sampleSurvey :: "string \<Rightarrow> CopilotSurveyResponse" where
  "sampleSurvey t =
     \<lparr>response = t, timestamp = ''2025-01-01T00:00:00.000Z'', conversationId = None,
      userId = None, botId = None, confidence = Some 95\<rparr>"

definition sampleResponse ::
  "string \<Rightarrow> real \<Rightarrow> real \<Rightarrow> real \<Rightarrow> SentimentAnalysisResult option" where
  "sampleResponse label p n u =
     Some \<lparr>error' = None, sentiment = Some label,
           confidenceScores = Some \<lparr>positive = p, negative = n, neutral = u\<rparr>\<rparr>"

text \<open>A client that answers every document with one positive result.\<close>

definition sampleClient :: "TextAnalysisClient option" where
  "sampleClient =
     Some (\<lambda>text.
       Some [\<lparr>error' = None, sentiment = Some ''positive'',
              confidenceScores =
                Some \<lparr>positive = 0.9, negative = 0.04, neutral = 0.06\<rparr>\<rparr>])"

definition sampleAI :: "int \<Rightarrow> real \<Rightarrow> CSATResult" where
  "sampleAI score c =
     \<lparr>csatScore = score, confidence = c, sentiment = mapScoreToSentiment score,
      satisfactionLevel = mapSentimentToSatisfaction [] score, reasoning = None,
      surveyResponseIncluded = None\<rparr>"

text \<open>
  A message without tags whose user is named \<open>Live agent\<close> and whose sender field is
  \<open>agent\<close>.
\<close>

definition agentMessage :: SDKMessage where
  "agentMessage =
     \<lparr>content = Some ''How can I help?'', text' = None, messageType = None,
      sender = Some ''agent'', timestamp = None, createdDateTime = None,
      from' = Some \<lparr>user = Some \<lparr>displayName = Some ''Live agent'', id' = None\<rparr>,
                   application = None\<rparr>,
      tags = None, isControlMessage = None\<rparr>"

definition sampleChat :: "Sender \<Rightarrow> string \<Rightarrow> ChatMessage" where
  "sampleChat s c = \<lparr>ChatMessage.content = c, sender = s, timestamp = ''t''\<rparr>"

definition disabledConfig :: "SentimentAnalysisConfig option" where
  "disabledConfig =
     Some \<lparr>endpoint = NoKey, apiKey = NoKey, timeout = NoKey, enabled = Key (Some False),
           useDefaultCredential = NoKey\<rparr>"

text \<open>\<open>{ apiKey: undefined }\<close>: the key is there and holds \<open>undefined\<close>.\<close>

definition keylessConfig :: "SentimentAnalysisConfig option" where
  "keylessConfig =
     Some \<lparr>endpoint = NoKey, apiKey = Key None, timeout = NoKey, enabled = NoKey,
           useDefaultCredential = NoKey\<rparr>"

section \<open>Properties of the guard\<close>

lemma chain_mkState_conversationEndedBy:
  "chain (chain (mkState e c f k s) appStates) conversationEndedBy = Some e"
  by (simp add: chain_def mkState_def)

lemma chain_mkState_conversationState:
  "chain (chain (mkState e c f k s) appStates) conversationState = Some c"
  by (simp add: chain_def mkState_def)

lemma chain_mkState_startChatFailed:
  "chain (chain (mkState e c f k s) appStates) startChatFailed = Some f"
  by (simp add: chain_def mkState_def)

lemma chain_mkState_confirmationState:
  "chain (chain (mkState e c f k s) domainStates) confirmationState = Some k"
  by (simp add: chain_def mkState_def)

lemma chain_mkState_showConfirmationPane:
  "chain (chain (mkState e c f k s) uiStates) showConfirmationPane = Some s"
  by (simp add: chain_def mkState_def)

lemmas chain_mkState =
  chain_mkState_conversationEndedBy chain_mkState_conversationState
  chain_mkState_startChatFailed chain_mkState_confirmationState
  chain_mkState_showConfirmationPane

text \<open>
  Claim C1. For every state object and every \<open>isPersistent\<close>, start-chat is blocked
  exactly when the end-entity marker is not \<open>NotSet\<close>, or the conversation is in
  \<open>PostchatLoading\<close> or \<open>Postchat\<close>, or the session is not persistent and the
  conversation is \<open>InActive\<close>. In particular a marker other than \<open>NotSet\<close> blocks
  whatever the other fields are, and an \<open>InActive\<close> conversation with marker
  \<open>NotSet\<close> is blocked without persistence and allowed with it. The statement covers
  state objects with absent fields too: an absent marker is not \<open>NotSet\<close>.
\<close>

theorem shouldPreventStartChat_iff:
  fixes st :: "LiveChatWidgetContext option" and isPersistent :: bool
  defines "endedBy \<equiv> chain (chain st appStates) conversationEndedBy"
      and "conv \<equiv> chain (chain st appStates) conversationState"
  shows "(shouldPreventStartChat st isPersistent \<longleftrightarrow>
            endedBy \<noteq> Some ConversationEndEntity.NotSet \<or> conv = Some PostchatLoading \<or>
            conv = Some Postchat \<or> (\<not> isPersistent \<and> conv = Some InActive))
         \<and> (endedBy \<noteq> Some ConversationEndEntity.NotSet \<longrightarrow> shouldPreventStartChat st isPersistent)
         \<and> (endedBy = Some ConversationEndEntity.NotSet \<and> conv = Some InActive \<longrightarrow>
              (shouldPreventStartChat st isPersistent \<longleftrightarrow> \<not> isPersistent))"
  unfolding endedBy_def conv_def shouldPreventStartChat_def by auto

theorem shouldPreventStartChat_iff_witness:
  "shouldPreventStartChat (mkState Customer Closed False ConfirmationState.NotSet False) False
   \<and> shouldPreventStartChat (mkState ConversationEndEntity.NotSet InActive False ConfirmationState.NotSet False) False
   \<and> \<not> shouldPreventStartChat (mkState ConversationEndEntity.NotSet InActive False ConfirmationState.NotSet False) True
   \<and> \<not> shouldPreventStartChat (mkState ConversationEndEntity.NotSet Closed False ConfirmationState.NotSet False) False"
  using shouldPreventStartChat_iff
          [of "mkState Customer Closed False ConfirmationState.NotSet False" False]
        shouldPreventStartChat_iff
          [of "mkState ConversationEndEntity.NotSet InActive False ConfirmationState.NotSet False" False]
        shouldPreventStartChat_iff
          [of "mkState ConversationEndEntity.NotSet InActive False ConfirmationState.NotSet False" True]
        shouldPreventStartChat_iff
          [of "mkState ConversationEndEntity.NotSet Closed False ConfirmationState.NotSet False" False]
  by (simp add: chain_mkState)

text \<open>
  Claim C2. For every state object, end-chat is blocked exactly when the conversation is
  \<open>Loading\<close> and \<open>startChatFailed\<close> is not true (false, or absent, which
  JavaScript negates to true as well); in any state other than \<open>Loading\<close>, and in
  \<open>Loading\<close> with \<open>startChatFailed\<close> true, it is allowed.
\<close>

theorem shouldPreventEndChat_iff:
  fixes st :: "LiveChatWidgetContext option"
  defines "conv \<equiv> chain (chain st appStates) conversationState"
      and "failed \<equiv> chain (chain st appStates) startChatFailed"
  shows "(shouldPreventEndChat st \<longleftrightarrow> conv = Some Loading \<and> failed \<noteq> Some True)
         \<and> (conv \<noteq> Some Loading \<longrightarrow> \<not> shouldPreventEndChat st)
         \<and> (conv = Some Loading \<and> failed = Some True \<longrightarrow> \<not> shouldPreventEndChat st)
         \<and> (conv = Some Loading \<and> failed = Some False \<longrightarrow> shouldPreventEndChat st)"
  unfolding conv_def failed_def shouldPreventEndChat_def truthy_def by auto

theorem shouldPreventEndChat_iff_witness:
  "shouldPreventEndChat (mkState ConversationEndEntity.NotSet Loading False ConfirmationState.NotSet False)
   \<and> \<not> shouldPreventEndChat (mkState ConversationEndEntity.NotSet Loading True ConfirmationState.NotSet False)
   \<and> \<not> shouldPreventEndChat (mkState ConversationEndEntity.NotSet Active False ConfirmationState.NotSet False)"
  using shouldPreventEndChat_iff
          [of "mkState ConversationEndEntity.NotSet Loading False ConfirmationState.NotSet False"]
        shouldPreventEndChat_iff
          [of "mkState ConversationEndEntity.NotSet Loading True ConfirmationState.NotSet False"]
        shouldPreventEndChat_iff
          [of "mkState ConversationEndEntity.NotSet Active False ConfirmationState.NotSet False"]
  by (simp add: chain_mkState)

text \<open>
  What a run of the effect decides: it dispatches \<open>SET_SHOW_CONFIRMATION false\<close> exactly
  when the pane is shown, the confirmation state is \<open>Ok\<close> and the conversation is
  settled, and it does nothing while the confirmation state is not \<open>Ok\<close>.
\<close>

lemma autoDismissEffect_decides:
  fixes st :: "LiveChatWidgetContext option"
  defines "conv \<equiv> chain (chain st appStates) conversationState"
      and "failed \<equiv> chain (chain st appStates) startChatFailed"
      and "conf \<equiv> chain (chain st domainStates) confirmationState"
      and "shown \<equiv> chain (chain st uiStates) showConfirmationPane"
  shows "(Dispatch (SET_SHOW_CONFIRMATION False) \<in> set (autoDismissEffect st) \<longleftrightarrow>
            shown = Some True \<and> conf = Some Ok \<and>
            (conv \<in> {Some Closed, Some PostchatLoading, Some Postchat, Some Error} \<or>
             (conv = Some Loading \<and> failed = Some True)))
         \<and> (conf \<noteq> Some Ok \<longrightarrow> autoDismissEffect st = [])"
  unfolding conv_def failed_def conf_def shown_def autoDismissEffect_def endChatCompleted_def
    truthy_def Let_def
  by auto

text \<open>
  When it runs: at the first render, and at a later render when the conversation state,
  the pane visibility or the confirmation state has changed. A render that changes nothing
  but \<open>startChatFailed\<close> runs nothing.
\<close>

lemma autoDismissOnRender_first: "autoDismissOnRender None st = autoDismissEffect st"
  by (simp add: autoDismissOnRender_def)

lemma autoDismissOnRender_changed:
  "autoDismissDependencies before \<noteq> autoDismissDependencies st
    \<Longrightarrow> autoDismissOnRender (Some before) st = autoDismissEffect st"
  by (simp add: autoDismissOnRender_def)

lemma autoDismissOnRender_unchanged:
  "autoDismissDependencies before = autoDismissDependencies st
    \<Longrightarrow> autoDismissOnRender (Some before) st = []"
  by (simp add: autoDismissOnRender_def)

text \<open>
  Claim C3. The claim is that for every combination of conversation state,
  \<open>startChatFailed\<close>, confirmation state and pane visibility the pane is dismissed
  exactly when it is shown, the confirmation state is \<open>Ok\<close> and the conversation is
  settled, \<open>Loading\<close> with \<open>startChatFailed\<close> true being a settled state. The code misses
  that state when it is reached by \<open>startChatFailed\<close> alone: the user has confirmed
  while the chat was still starting (\<open>Loading\<close>, not failed, \<open>Ok\<close>, pane shown), then
  the start fails. No entry of the dependency list has changed, the effect does not run,
  and nothing is dispatched: the pane stays open. A run of the body in that same state
  does dismiss, as the first render does, and as the render does when the confirmation
  comes after the failure.
\<close>

theorem autoDismissOnRender_misses_startChatFailed:
  "autoDismissOnRender
      (Some (mkState ConversationEndEntity.NotSet Loading False Ok True))
      (mkState ConversationEndEntity.NotSet Loading True Ok True) = []
   \<and> autoDismissEffect (mkState ConversationEndEntity.NotSet Loading True Ok True)
       = [SetTabIndices True, Dispatch (SET_SHOW_CONFIRMATION False)]
   \<and> autoDismissOnRender None (mkState ConversationEndEntity.NotSet Loading True Ok True)
       = [SetTabIndices True, Dispatch (SET_SHOW_CONFIRMATION False)]
   \<and> autoDismissOnRender
       (Some (mkState ConversationEndEntity.NotSet Loading True ConfirmationState.NotSet True))
       (mkState ConversationEndEntity.NotSet Loading True Ok True)
       = [SetTabIndices True, Dispatch (SET_SHOW_CONFIRMATION False)]"
  by (simp add: autoDismissOnRender_def autoDismissDependencies_def autoDismissEffect_def
      endChatCompleted_def truthy_def chain_mkState)

section \<open>Properties of the scoring pipeline\<close>

subsection \<open>Score mapping\<close>

lemmas parseInt_eval = parseInt_def isStrWhiteSpaceChar_def digitValue_def mathInt_def

text \<open>
  Claim C4. For every provider response that carries a sentiment label and the three
  confidence scores, the parser returns a result whose score is: for \<open>positive\<close>, 5 when
  the positive confidence is above 0.8 and 4 otherwise; for \<open>negative\<close>, 1 when the
  negative confidence is above 0.8 and 2 otherwise; 3 for \<open>neutral\<close>; \<open>mixed\<close> becomes
  \<open>neutral\<close> and scores 3 (any other label is kept and scores 3 too). The confidence
  of the result is the maximum of the three scores, and a positive sentiment never
  scores below 4.
\<close>

theorem parseAzureSDKResponse_score:
  fixes label :: string and scores :: ConfidenceScores and e :: "string option"
  assumes "label \<noteq> []"
  shows "\<exists>r. parseAzureSDKResponse
               (Some \<lparr>error' = e, sentiment = Some label, confidenceScores = Some scores\<rparr>)
               = Some r \<and>
           csatScore r =
             (if label = ''positive'' then (if positive scores > 0.8 then 5 else 4)
              else if label = ''negative'' then (if negative scores > 0.8 then 1 else 2)
              else 3) \<and>
           CSATResult.sentiment r = (if label = ''mixed'' then ''neutral'' else label) \<and>
           CSATResult.confidence r = Max {positive scores, negative scores, neutral scores} \<and>
           (label = ''positive'' \<longrightarrow> 4 \<le> csatScore r)"
  using assms by (simp add: parseAzureSDKResponse_def chain_def Let_def)

theorem parseAzureSDKResponse_score_witness:
  "(\<exists>r. parseAzureSDKResponse (sampleResponse ''positive'' 0.9 0.04 0.06) = Some r \<and>
        csatScore r = 5 \<and> CSATResult.confidence r = 0.9)
   \<and> (\<exists>r. parseAzureSDKResponse (sampleResponse ''positive'' 0.7 0.1 0.2) = Some r \<and>
        csatScore r = 4)
   \<and> (\<exists>r. parseAzureSDKResponse (sampleResponse ''positive'' 0.5 0.1 0.4) = Some r \<and>
        csatScore r = 4)
   \<and> (\<exists>r. parseAzureSDKResponse (sampleResponse ''negative'' 0.05 0.85 0.1) = Some r \<and>
        csatScore r = 1)
   \<and> (\<exists>r. parseAzureSDKResponse (sampleResponse ''mixed'' 0.45 0.45 0.1) = Some r \<and>
        csatScore r = 3 \<and> CSATResult.sentiment r = ''neutral'')"
  using parseAzureSDKResponse_score
          [of "''positive''" None "\<lparr>positive = 0.9, negative = 0.04, neutral = 0.06\<rparr>"]
        parseAzureSDKResponse_score
          [of "''positive''" None "\<lparr>positive = 0.7, negative = 0.1, neutral = 0.2\<rparr>"]
        parseAzureSDKResponse_score
          [of "''positive''" None "\<lparr>positive = 0.5, negative = 0.1, neutral = 0.4\<rparr>"]
        parseAzureSDKResponse_score
          [of "''negative''" None "\<lparr>positive = 0.05, negative = 0.85, neutral = 0.1\<rparr>"]
        parseAzureSDKResponse_score
          [of "''mixed''" None "\<lparr>positive = 0.45, negative = 0.45, neutral = 0.1\<rparr>"]
  by (simp add: sampleResponse_def) blast

subsection \<open>Double-precision rounding\<close>

text \<open>
  \<open>fl\<close> on a magnitude that \<open>j\<close> doublings bring into the range from \<open>2 ^ 52\<close> up to
  \<open>2 ^ 53\<close>, and in particular on the magnitudes from 1/4 up to 16.
\<close>

lemma doublings_eq:
  "0 < y \<Longrightarrow> 2 ^ 52 \<le> y * 2 ^ j \<Longrightarrow> y * 2 ^ j < 2 ^ 53 \<Longrightarrow> j \<le> n \<Longrightarrow> doublings n y = j"
proof (induction n arbitrary: y j)
  case 0
  then show ?case by simp
next
  case (Suc n)
  show ?case
  proof (cases "y < 2 ^ 52")
    case True
    with Suc.prems(2) have "j \<noteq> 0" by (cases j) auto
    then obtain j' where j: "j = Suc j'" by (cases j) auto
    with Suc.prems have "doublings n (2 * y) = j'"
      by (intro Suc.IH) (simp_all add: mult.assoc mult.left_commute)
    with True j show ?thesis by simp
  next
    case False
    have "j = 0"
    proof (rule ccontr)
      assume "j \<noteq> 0"
      then have "(2::rat) \<le> 2 ^ j" by (cases j) (auto simp: self_le_power)
      with False Suc.prems(1) have "2 ^ 52 * 2 \<le> y * 2 ^ j"
        by (intro mult_mono) auto
      with Suc.prems(3) show False by simp
    qed
    with False show ?thesis by simp
  qed
qed

lemma halvings_zero: "y < 2 ^ 53 \<Longrightarrow> halvings n y = 0"
  by (cases n) simp_all

lemma fl_scaled:
  assumes "x \<noteq> 0" and "2 ^ 52 \<le> \<bar>x\<bar> * 2 ^ j" and "\<bar>x\<bar> * 2 ^ j < 2 ^ 53" and "j \<le> 1074"
  shows "fl x = of_int (roundTiesToEven (x * 2 ^ j)) / 2 ^ j"
proof -
  from assms(1) have pos: "0 < \<bar>x\<bar>" by simp
  have up: "doublings 1074 \<bar>x\<bar> = j"
    by (rule doublings_eq [OF pos assms(2,3,4)])
  have "\<bar>x\<bar> * 1 \<le> \<bar>x\<bar> * 2 ^ j"
    by (intro mult_left_mono) auto
  with assms(3) have "\<bar>x\<bar> < 2 ^ 53" by simp
  then have down: "halvings 971 \<bar>x\<bar> = 0"
    by (rule halvings_zero)
  show ?thesis
    using assms(1) by (simp add: fl_def up down)
qed

lemma fl_fractionBits:
  assumes "1 / 4 \<le> \<bar>x\<bar>" and "\<bar>x\<bar> < 16"
  shows "fl x = of_int (roundTiesToEven (x * 2 ^ fractionBits \<bar>x\<bar>)) / 2 ^ fractionBits \<bar>x\<bar>"
proof -
  from assms(1) have nz: "x \<noteq> 0" by auto
  have "2 ^ 52 \<le> \<bar>x\<bar> * 2 ^ fractionBits \<bar>x\<bar> \<and> \<bar>x\<bar> * 2 ^ fractionBits \<bar>x\<bar> < 2 ^ 53"
    using assms unfolding fractionBits_def by (auto split: if_splits)
  moreover have "fractionBits \<bar>x\<bar> \<le> 1074"
    by (simp add: fractionBits_def)
  ultimately show ?thesis
    using fl_scaled [OF nz] by blast
qed

lemma floor_numeral_quotient:
  "\<lfloor>(numeral a :: rat) / numeral b\<rfloor> = numeral a div numeral b"
  using floor_divide_of_int_eq [of "numeral a" "numeral b", where ?'a = rat] by simp

lemmas fl_eval =
  fl_fractionBits fractionBits_def roundTiesToEven_def Let_def floor_numeral_quotient

text \<open>The literals \<open>0.7\<close> and \<open>0.3\<close> as doubles.\<close>

lemma fl_literals:
  "fl (7 / 10) = 3152519739159347 / 4503599627370496"
  "fl (3 / 10) = 5404319552844595 / 18014398509481984"
  by (simp_all add: fl_eval)

subsection \<open>Survey blend\<close>

text \<open>
  For a survey score and an AI score from 1 to 5 the double-precision weighted sum rounds
  to the same integer as the exact one, \<open>(7 * s + 3 * a) / 10\<close> rounded half up. Outside
  that range the two can differ: with the survey score 3 and a score of -2, which no
  scoring path produces, the exact sum is 1.5 and rounds to 2, the double is
  1.4999999999999996 and rounds to 1.
\<close>

lemma int_1_to_5:
  "1 \<le> (n::int) \<Longrightarrow> n \<le> 5 \<Longrightarrow> n = 1 \<or> n = 2 \<or> n = 3 \<or> n = 4 \<or> n = 5"
  by arith

lemma round_weighted_exact:
  "round (real_of_int s * 0.7 + real_of_int a * 0.3) = (7 * s + 3 * a + 5) div 10"
proof -
  have "real_of_int s * 0.7 + real_of_int a * 0.3 + 1 / 2
      = real_of_int (7 * s + 3 * a + 5) / real_of_int 10"
    by simp
  then show ?thesis
    unfolding round_def by (simp only: floor_divide_of_int_eq)
qed

lemma Math_round_weighted:
  assumes "1 \<le> s" and "s \<le> 5" and "1 \<le> a" and "a \<le> 5"
  shows "Math_round (weighted s a) = (7 * s + 3 * a + 5) div 10"
  using int_1_to_5 [OF assms(1,2)] int_1_to_5 [OF assms(3,4)]
  by (elim disjE;
      simp add: weighted_def plusD_def timesD_def Math_round_def fl_literals;
      simp add: fl_eval)

lemma Math_round_weighted_outside: "Math_round (weighted 3 (- 2)) = 1"
  by (simp add: weighted_def plusD_def timesD_def Math_round_def fl_literals;
      simp add: fl_eval)

text \<open>
  On a response written as a numeral \<open>parseInt\<close> reads the number the numeral stands for,
  so the survey score of such a response is its value.
\<close>

lemma radixDigits_numeral:
  "list_all (\<lambda>c. 48 \<le> (of_char c :: nat) \<and> (of_char c :: nat) \<le> 57) s
    \<Longrightarrow> radixDigits 10 s = map (\<lambda>c. (of_char c :: nat) - 48) s"
  by (induction s) (auto simp: digitValue_def Let_def)

lemma parseInt_numeral:
  assumes "isNumeral s"
  shows "parseInt s = Some (int (numeralValue s))"
proof -
  from assms obtain c cs where s: "s = c # cs"
    by (cases s) (auto simp: isNumeral_def)
  from assms have digits: "list_all (\<lambda>c. 48 \<le> (of_char c :: nat) \<and> (of_char c :: nat) \<le> 57) s"
    by (simp add: isNumeral_def)
  with s have c: "48 \<le> (of_char c :: nat)" "(of_char c :: nat) \<le> 57"
    by simp_all
  then have nows: "\<not> isStrWhiteSpaceChar c"
    by (auto simp: isStrWhiteSpaceChar_def)
  from c have nosign: "c \<noteq> CHR ''-''" "c \<noteq> CHR ''+''"
    by auto
  have nohex: "take 2 s \<noteq> ''0x''" "take 2 s \<noteq> ''0X''"
  proof -
    show "take 2 s \<noteq> ''0x''"
    proof (cases cs)
      case Nil
      with s show ?thesis by simp
    next
      case (Cons d ds)
      with digits s have "(of_char d :: nat) \<le> 57" by simp
      then have "d \<noteq> CHR ''x''" by auto
      with s Cons show ?thesis by (simp add: numeral_2_eq_2)
    qed
    show "take 2 s \<noteq> ''0X''"
    proof (cases cs)
      case Nil
      with s show ?thesis by simp
    next
      case (Cons d ds)
      with digits s have "48 \<le> (of_char d :: nat)" "(of_char d :: nat) \<le> 57" by simp_all
      then have "d \<noteq> CHR ''X''" by auto
      with s Cons show ?thesis by (simp add: numeral_2_eq_2)
    qed
  qed
  have drop: "dropWhile isStrWhiteSpaceChar s = s"
    using s nows by simp
  have sign: "take 1 s \<noteq> ''-''" "take 1 s \<noteq> ''+''"
    using s nosign by simp_all
  have Z: "radixDigits 10 s = map (\<lambda>c. (of_char c :: nat) - 48) s"
    by (rule radixDigits_numeral [OF digits])
  have ne: "map (\<lambda>c. (of_char c :: nat) - 48) s \<noteq> []"
    using s by simp
  have val: "mathInt 10 (map (\<lambda>c. (of_char c :: nat) - 48) s) = numeralValue s"
    by (simp add: mathInt_def numeralValue_def foldl_map)
  show ?thesis
    unfolding parseInt_def drop Let_def
    using sign nohex ne by (simp add: Z val)
qed

lemma combineSentimentAndSurvey_valid:
  assumes "parseInt (response survey) = Some n" and "1 \<le> n" and "n \<le> 5"
  shows "combineSentimentAndSurvey ai survey =
           \<lparr>csatScore = max 1 (min 5 (Math_round (weighted n (csatScore ai)))),
            confidence = max (CSATResult.confidence ai) 0.95,
            sentiment = mapScoreToSentiment
              (max 1 (min 5 (Math_round (weighted n (csatScore ai))))),
            satisfactionLevel = mapSentimentToSatisfaction []
              (max 1 (min 5 (Math_round (weighted n (csatScore ai))))),
            reasoning = Some (CombinedAnalysis n (csatScore ai)),
            surveyResponseIncluded = Some True\<rparr>"
  using assms by (simp add: combineSentimentAndSurvey_def weighted_def Let_def)

text \<open>
  Outside the range of the AI scoring the blend follows the doubles: a score of -2 with the
  survey \<open>3\<close> is blended to 1, where the exact sum 1.5 would round to 2.
\<close>

lemma combineSentimentAndSurvey_outside_range:
  "csatScore (combineSentimentAndSurvey (sampleAI (- 2) 0.6) (sampleSurvey ''3'')) = 1"
proof -
  have p: "parseInt (response (sampleSurvey ''3'')) = Some 3"
    by (simp add: sampleSurvey_def parseInt_eval)
  show ?thesis
    by (simp add: combineSentimentAndSurvey_valid [OF p] sampleAI_def Math_round_weighted_outside)
qed

text \<open>
  Claim C5. For every AI sentiment result, whose score is from 1 to 5 as every result of
  the AI scoring is, and every survey response whose numeric value (what \<open>parseInt\<close>
  reads from it: for a response written as a numeral, the number it stands for) is an
  integer from 1 to 5, the blended result has the score
  \<open>round (survey * 0.7 + aiScore * 0.3)\<close> clamped to 1..5, the confidence
  \<open>max aiConfidence 0.95\<close>, the sentiment re-derived from the final score (4 and above
  positive, 2 and below negative, neutral otherwise), and is marked as including the
  survey. An AI score of 4 with the survey \<open>5\<close> gives 5.
\<close>

theorem combineSentimentAndSurvey_blend:
  fixes ai :: CSATResult and survey :: CopilotSurveyResponse and n :: int
  assumes "parseInt (response survey) = Some n" and "1 \<le> n" and "n \<le> 5"
    and "1 \<le> csatScore ai" and "csatScore ai \<le> 5"
  defines "r \<equiv> combineSentimentAndSurvey ai survey"
  shows "csatScore r = max 1 (min 5 (round (real_of_int n * 0.7 + real_of_int (csatScore ai) * 0.3))) \<and>
         CSATResult.confidence r = max (CSATResult.confidence ai) 0.95 \<and>
         CSATResult.sentiment r =
           (if 4 \<le> csatScore r then ''positive''
            else if csatScore r \<le> 2 then ''negative'' else ''neutral'') \<and>
         surveyResponseIncluded r = Some True"
proof -
  define fs where "fs = max 1 (min 5 (Math_round (weighted n (csatScore ai))))"
  have eq: "r = \<lparr>csatScore = fs, confidence = max (CSATResult.confidence ai) 0.95,
                 sentiment = mapScoreToSentiment fs,
                 satisfactionLevel = mapSentimentToSatisfaction [] fs,
                 reasoning = Some (CombinedAnalysis n (csatScore ai)),
                 surveyResponseIncluded = Some True\<rparr>"
    unfolding r_def fs_def by (rule combineSentimentAndSurvey_valid [OF assms(1-3)])
  have score: "csatScore r = fs"
    by (simp add: eq)
  have "Math_round (weighted n (csatScore ai))
      = round (real_of_int n * 0.7 + real_of_int (csatScore ai) * 0.3)"
    by (simp only: Math_round_weighted [OF assms(2-5)] round_weighted_exact)
  then have "fs = max 1 (min 5 (round (real_of_int n * 0.7 + real_of_int (csatScore ai) * 0.3)))"
    unfolding fs_def by (rule arg_cong)
  with score have a: "csatScore r =
      max 1 (min 5 (round (real_of_int n * 0.7 + real_of_int (csatScore ai) * 0.3)))"
    by (rule trans)
  have b: "CSATResult.confidence r = max (CSATResult.confidence ai) 0.95"
    by (simp add: eq)
  have "CSATResult.sentiment r =
      (if 4 \<le> fs then ''positive'' else if fs \<le> 2 then ''negative'' else ''neutral'')"
    by (simp add: eq mapScoreToSentiment_def)
  then have c: "CSATResult.sentiment r =
      (if 4 \<le> csatScore r then ''positive''
       else if csatScore r \<le> 2 then ''negative'' else ''neutral'')"
    by (simp only: score)
  have d: "surveyResponseIncluded r = Some True"
    by (simp add: eq)
  from a b c d show ?thesis by blast
qed

theorem combineSentimentAndSurvey_blend_witness:
  "parseInt (response (sampleSurvey ''5'')) = Some 5 \<and>
   parseInt (response (sampleSurvey ''3'')) = Some 3 \<and>
   parseInt (response (sampleSurvey ''1'')) = Some 1 \<and>
   parseInt (response (sampleSurvey ''4'')) = Some 4 \<and>
   parseInt (response (sampleSurvey ''2'')) = Some 2 \<and>
   csatScore (combineSentimentAndSurvey (sampleAI 4 0.6) (sampleSurvey ''5'')) = 5 \<and>
   CSATResult.confidence (combineSentimentAndSurvey (sampleAI 4 0.6) (sampleSurvey ''5'')) = 0.95 \<and>
   CSATResult.sentiment (combineSentimentAndSurvey (sampleAI 4 0.6) (sampleSurvey ''5''))
     = ''positive'' \<and>
   surveyResponseIncluded (combineSentimentAndSurvey (sampleAI 4 0.6) (sampleSurvey ''5''))
     = Some True \<and>
   csatScore (combineSentimentAndSurvey (sampleAI 1 0.97) (sampleSurvey ''3'')) = 2 \<and>
   CSATResult.confidence (combineSentimentAndSurvey (sampleAI 1 0.97) (sampleSurvey ''3'')) = 0.97 \<and>
   CSATResult.sentiment (combineSentimentAndSurvey (sampleAI 1 0.97) (sampleSurvey ''3''))
     = ''negative'' \<and>
   csatScore (combineSentimentAndSurvey (sampleAI 5 0.9) (sampleSurvey ''1'')) = 2 \<and>
   csatScore (combineSentimentAndSurvey (sampleAI 2 0.9) (sampleSurvey ''4'')) = 3 \<and>
   CSATResult.sentiment (combineSentimentAndSurvey (sampleAI 2 0.9) (sampleSurvey ''4''))
     = ''neutral'' \<and>
   csatScore (combineSentimentAndSurvey (sampleAI 3 0.9) (sampleSurvey ''2'')) = 2"
proof -
  have p5: "parseInt (response (sampleSurvey ''5'')) = Some 5"
    and p3: "parseInt (response (sampleSurvey ''3'')) = Some 3"
    and p1: "parseInt (response (sampleSurvey ''1'')) = Some 1"
    and p4: "parseInt (response (sampleSurvey ''4'')) = Some 4"
    and p2: "parseInt (response (sampleSurvey ''2'')) = Some 2"
    by (simp_all add: sampleSurvey_def parseInt_eval)
  have range: "(1::int) \<le> 1" "(1::int) \<le> 2" "(1::int) \<le> 3" "(1::int) \<le> 4" "(1::int) \<le> 5"
      "(1::int) \<le> 5" "(2::int) \<le> 5" "(3::int) \<le> 5" "(4::int) \<le> 5" "(5::int) \<le> 5"
    by simp_all
  let ?r5 = "combineSentimentAndSurvey (sampleAI 4 0.6) (sampleSurvey ''5'')"
  let ?r3 = "combineSentimentAndSurvey (sampleAI 1 0.97) (sampleSurvey ''3'')"
  let ?r1 = "combineSentimentAndSurvey (sampleAI 5 0.9) (sampleSurvey ''1'')"
  let ?r4 = "combineSentimentAndSurvey (sampleAI 2 0.9) (sampleSurvey ''4'')"
  let ?r2 = "combineSentimentAndSurvey (sampleAI 3 0.9) (sampleSurvey ''2'')"
  have lo: "1 \<le> csatScore (sampleAI 4 0.6)" "1 \<le> csatScore (sampleAI 1 0.97)"
      "1 \<le> csatScore (sampleAI 5 0.9)" "1 \<le> csatScore (sampleAI 2 0.9)"
      "1 \<le> csatScore (sampleAI 3 0.9)"
    and hi: "csatScore (sampleAI 4 0.6) \<le> 5" "csatScore (sampleAI 1 0.97) \<le> 5"
      "csatScore (sampleAI 5 0.9) \<le> 5" "csatScore (sampleAI 2 0.9) \<le> 5"
      "csatScore (sampleAI 3 0.9) \<le> 5"
    by (simp_all add: sampleAI_def)
  note t5 = combineSentimentAndSurvey_blend [OF p5 range(5) range(10) lo(1) hi(1)]
  note t3 = combineSentimentAndSurvey_blend [OF p3 range(3) range(8) lo(2) hi(2)]
  note t1 = combineSentimentAndSurvey_blend [OF p1 range(1) range(6) lo(3) hi(3)]
  note t4 = combineSentimentAndSurvey_blend [OF p4 range(4) range(9) lo(4) hi(4)]
  note t2 = combineSentimentAndSurvey_blend [OF p2 range(2) range(7) lo(5) hi(5)]
  have v5: "max 1 (min 5 (round (real_of_int 5 * 0.7
              + real_of_int (csatScore (sampleAI 4 0.6)) * 0.3))) = (5::int)"
    and v3: "max 1 (min 5 (round (real_of_int 3 * 0.7
              + real_of_int (csatScore (sampleAI 1 0.97)) * 0.3))) = (2::int)"
    and v1: "max 1 (min 5 (round (real_of_int 1 * 0.7
              + real_of_int (csatScore (sampleAI 5 0.9)) * 0.3))) = (2::int)"
    and v4: "max 1 (min 5 (round (real_of_int 4 * 0.7
              + real_of_int (csatScore (sampleAI 2 0.9)) * 0.3))) = (3::int)"
    and v2: "max 1 (min 5 (round (real_of_int 2 * 0.7
              + real_of_int (csatScore (sampleAI 3 0.9)) * 0.3))) = (2::int)"
    by (simp_all add: sampleAI_def round_def)
  have s5: "csatScore ?r5 = 5" using t5 v5 by (simp only:)
  have s3: "csatScore ?r3 = 2" using t3 v3 by (simp only:)
  have s1: "csatScore ?r1 = 2" using t1 v1 by (simp only:)
  have s4: "csatScore ?r4 = 3" using t4 v4 by (simp only:)
  have s2: "csatScore ?r2 = 2" using t2 v2 by (simp only:)
  have c5: "CSATResult.confidence ?r5 = 0.95" using t5 by (simp add: sampleAI_def)
  have c3: "CSATResult.confidence ?r3 = 0.97" using t3 by (simp add: sampleAI_def)
  have m5: "CSATResult.sentiment ?r5 = ''positive''" using t5 s5 by simp
  have m3: "CSATResult.sentiment ?r3 = ''negative''" using t3 s3 by simp
  have m4: "CSATResult.sentiment ?r4 = ''neutral''" using t4 s4 by simp
  have i5: "surveyResponseIncluded ?r5 = Some True" using t5 by blast
  from p5 p3 p1 p4 p2 s5 c5 m5 i5 s3 c3 m3 s1 s4 m4 s2 show ?thesis by (intro conjI)
qed

subsection \<open>Transcript text\<close>

lemma conversationTextLoop_suffix:
  assumes "k \<le> length t"
  shows "\<exists>j\<le>k.
           conversationTextLoop t k (concat (map messageText (drop k t)))
             = concat (map messageText (drop j t)) \<and>
           (\<forall>i. j \<le> i \<and> i < k \<longrightarrow>
                i = length t - 1 \<or>
                length (concat (map messageText (drop (Suc i) t))) + length (messageText (t ! i))
                  \<le> MAX_TEXT_LENGTH) \<and>
           (0 < j \<longrightarrow>
              j - 1 \<noteq> length t - 1 \<and>
              MAX_TEXT_LENGTH
                < length (concat (map messageText (drop j t))) + length (messageText (t ! (j - 1))))"
  using assms
proof (induction k)
  case 0
  then show ?case by simp
next
  case (Suc k)
  let ?txt = "\<lambda>j. concat (map messageText (drop j t))"
  let ?fits = "\<lambda>i. i = length t - 1 \<or>
                  length (?txt (Suc i)) + length (messageText (t ! i)) \<le> MAX_TEXT_LENGTH"
  from Suc.prems have k: "k < length t" by simp
  then have step: "messageText (t ! k) @ ?txt (Suc k) = ?txt k"
    by (simp add: Cons_nth_drop_Suc [symmetric])
  show ?case
  proof (cases "?fits k")
    case True
    then have run: "conversationTextLoop t (Suc k) (?txt (Suc k)) = conversationTextLoop t k (?txt k)"
      by (simp add: step)
    from Suc.IH k obtain j where j: "j \<le> k"
        "conversationTextLoop t k (?txt k) = ?txt j"
        "\<forall>i. j \<le> i \<and> i < k \<longrightarrow> ?fits i"
        "0 < j \<longrightarrow> j - 1 \<noteq> length t - 1 \<and>
           MAX_TEXT_LENGTH < length (?txt j) + length (messageText (t ! (j - 1)))"
      by auto
    have "\<forall>i. j \<le> i \<and> i < Suc k \<longrightarrow> ?fits i"
    proof (intro allI impI)
      fix i assume "j \<le> i \<and> i < Suc k"
      then have "i < k \<or> i = k" by auto
      then show "?fits i"
      proof
        assume "i < k"
        with \<open>j \<le> i \<and> i < Suc k\<close> j(3) show ?thesis by blast
      next
        assume "i = k"
        with True show ?thesis by simp
      qed
    qed
    with j run show ?thesis
      by (intro exI [of _ j]) simp
  next
    case False
    then have "conversationTextLoop t (Suc k) (?txt (Suc k)) = ?txt (Suc k)"
      by simp
    with False show ?thesis
      by (intro exI [of _ "Suc k"]) auto
  qed
qed

text \<open>
  Claim C6. For every non-empty transcript the assembled text is the concatenation of the
  lines of a contiguous run of messages that ends with the newest one: it holds the
  newest message's line in full, as its end, whatever the length of that line; every
  older message that is included fitted into the budget of 5000 characters when the walk
  from the newest message backwards reached it; and the walk stopped at the first older
  message whose line would have pushed the total over 5000.
\<close>

theorem buildConversationText_recent:
  assumes "t \<noteq> []"
  shows "\<exists>j<length t.
           buildConversationText t = concat (map messageText (drop j t)) \<and>
           suffix (messageText (last t)) (buildConversationText t) \<and>
           (\<forall>i. j \<le> i \<and> i < length t - 1 \<longrightarrow>
                length (concat (map messageText (drop (Suc i) t))) + length (messageText (t ! i))
                  \<le> 5000) \<and>
           (0 < j \<longrightarrow>
              5000 < length (concat (map messageText (drop j t)))
                       + length (messageText (t ! (j - 1))))"
proof -
  from conversationTextLoop_suffix [of "length t" t]
  obtain j where j: "j \<le> length t"
      "buildConversationText t = concat (map messageText (drop j t))"
      "\<forall>i. j \<le> i \<and> i < length t \<longrightarrow>
           i = length t - 1 \<or>
           length (concat (map messageText (drop (Suc i) t))) + length (messageText (t ! i))
             \<le> MAX_TEXT_LENGTH"
      "0 < j \<longrightarrow> j - 1 \<noteq> length t - 1 \<and>
         MAX_TEXT_LENGTH
           < length (concat (map messageText (drop j t))) + length (messageText (t ! (j - 1)))"
    by (auto simp: buildConversationText_def)
  from assms have n: "0 < length t" by simp
  have lt: "j < length t"
  proof (rule ccontr)
    assume "\<not> j < length t"
    with j(1) have "j = length t" by simp
    with j(4) n show False by simp
  qed
  have "concat (map messageText (drop j t)) =
      concat (map messageText (butlast (drop j t))) @ messageText (last t)"
  proof -
    from lt have ne: "drop j t \<noteq> []" by simp
    from lt have l: "last (drop j t) = last t" by (simp add: last_drop)
    have e: "butlast (drop j t) @ [last t] = drop j t"
      using append_butlast_last_id [OF ne] unfolding l .
    have "concat (map messageText (butlast (drop j t) @ [last t])) =
        concat (map messageText (butlast (drop j t))) @ messageText (last t)"
      by simp
    then show ?thesis
      unfolding e .
  qed
  then have suf: "suffix (messageText (last t)) (buildConversationText t)"
    unfolding j(2) suffix_def by blast
  have fit: "\<forall>i. j \<le> i \<and> i < length t - 1 \<longrightarrow>
      length (concat (map messageText (drop (Suc i) t))) + length (messageText (t ! i)) \<le> 5000"
    using j(3) by (auto simp: MAX_TEXT_LENGTH_def)
  have stop: "0 < j \<longrightarrow>
      5000 < length (concat (map messageText (drop j t))) + length (messageText (t ! (j - 1)))"
    using j(4) by (simp add: MAX_TEXT_LENGTH_def)
  show ?thesis
  proof (intro exI conjI)
    show "j < length t" by (rule lt)
    show "buildConversationText t = concat (map messageText (drop j t))" by (rule j(2))
    show "suffix (messageText (last t)) (buildConversationText t)" by (rule suf)
    show "\<forall>i. j \<le> i \<and> i < length t - 1 \<longrightarrow>
      length (concat (map messageText (drop (Suc i) t))) + length (messageText (t ! i)) \<le> 5000"
      by (rule fit)
    show "0 < j \<longrightarrow>
      5000 < length (concat (map messageText (drop j t))) + length (messageText (t ! (j - 1)))"
      by (rule stop)
  qed
qed

lemma buildConversationText_long_newest:
  "5000 < length c \<Longrightarrow>
   buildConversationText [sampleChat customer ''hello'', sampleChat agent c]
     = messageText (sampleChat agent c)"
  by (simp add: buildConversationText_def MAX_TEXT_LENGTH_def messageText_def sampleChat_def)

theorem buildConversationText_recent_witness:
  "suffix (messageText (sampleChat agent (replicate 6000 (CHR ''x''))))
     (buildConversationText
        [sampleChat customer ''hello'', sampleChat agent (replicate 6000 (CHR ''x''))])
   \<and> 5000 < length (messageText (sampleChat agent (replicate 6000 (CHR ''x''))))
   \<and> buildConversationText
        [sampleChat customer ''hello'', sampleChat agent (replicate 6000 (CHR ''x''))]
      = messageText (sampleChat agent (replicate 6000 (CHR ''x'')))"
proof -
  let ?new = "sampleChat agent (replicate 6000 (CHR ''x''))"
  let ?t = "[sampleChat customer ''hello'', ?new]"
  have ne: "?t \<noteq> []" by simp
  from buildConversationText_recent [OF ne]
  have "suffix (messageText (last ?t)) (buildConversationText ?t)" by blast
  moreover have "last ?t = ?new" by simp
  ultimately have a: "suffix (messageText ?new) (buildConversationText ?t)"
    by (simp only:)
  have b: "5000 < length (messageText ?new)"
    by (simp add: messageText_def sampleChat_def)
  have "5000 < length (replicate 6000 (CHR ''x''))" by simp
  then have c: "buildConversationText ?t = messageText ?new"
    by (rule buildConversationText_long_newest)
  from a b c show ?thesis by (intro conjI)
qed

subsection \<open>Survey recognition\<close>

lemma test_1_to_5_iff: "test_1_to_5 t \<longleftrightarrow> t \<in> {''1'', ''2'', ''3'', ''4'', ''5''}"
proof (cases t)
  case Nil
  then show ?thesis by simp
next
  case (Cons c cs)
  show ?thesis
  proof (cases cs)
    case Nil
    have "(49 \<le> (of_char c :: nat) \<and> (of_char c :: nat) \<le> 53) \<longleftrightarrow>
          (of_char c :: nat) \<in> {49, 50, 51, 52, 53}"
      by auto
    also have "\<dots> \<longleftrightarrow> c \<in> {CHR ''1'', CHR ''2'', CHR ''3'', CHR ''4'', CHR ''5''}"
      by (cases c) auto
    finally show ?thesis using Cons Nil by simp
  next
    case (Cons d ds)
    then show ?thesis using \<open>t = c # cs\<close> by simp
  qed
qed

text \<open>
  Claim C7. An activity is recognised as a survey response exactly when it is present,
  its type is \<open>message\<close>, it carries a non-empty \<open>channelData.clientActivityID\<close> and a
  non-empty \<open>cci_bot_id\<close>, its text is one digit from 1 to 5, and its text format is
  \<open>plain\<close>. The text \<open>3\<close> is accepted and the text \<open>12\<close> rejected.
\<close>

theorem isCopilotSurveyResponse_iff:
  "isCopilotSurveyResponse activity \<longleftrightarrow>
     (\<exists>a cd cid b t.
        activity = Some a \<and> type' a = Some ''message'' \<and>
        channelData a = Some cd \<and> clientActivityID cd = Some cid \<and> cid \<noteq> [] \<and>
        cci_bot_id a = Some b \<and> b \<noteq> [] \<and>
        DirectLineActivity.text' a = Some t \<and> t \<in> {''1'', ''2'', ''3'', ''4'', ''5''} \<and>
        textFormat a = Some ''plain'')"
  unfolding isCopilotSurveyResponse_def chain_def truthyStr_def test_1_to_5_iff
  by (auto split: option.splits)

theorem isCopilotSurveyResponse_iff_witness:
  "isCopilotSurveyResponse (sampleActivity ''3'') \<and> \<not> isCopilotSurveyResponse (sampleActivity ''12'')"
  using isCopilotSurveyResponse_iff [of "sampleActivity ''3''"]
        isCopilotSurveyResponse_iff [of "sampleActivity ''12''"]
  by (simp add: sampleActivity_def)

subsection \<open>Sender classification\<close>

text \<open>
  What \<open>determineSender\<close> of \<open>SentimentAnalysisService\<close> computes: customer when the
  tags contain \<open>FromCustomer\<close> or the application's display name is exactly
  \<open>Customer\<close>; otherwise agent when the tags contain \<open>public\<close>; otherwise bot. The
  user's display name, the sender field and the message type are not read.
\<close>

lemma determineSender_cases:
  fixes m m' :: SDKMessage
  defines "fromCustomer \<equiv> (\<exists>t. tags m = Some t \<and> sublist ''FromCustomer'' t) \<or>
            (\<exists>f a. SDKMessage.from' m = Some f \<and> application f = Some a \<and>
                   displayName a = Some ''Customer'')"
      and "isPublic \<equiv> (\<exists>t. tags m = Some t \<and> sublist ''public'' t)"
  shows "(determineSender m = customer \<longleftrightarrow> fromCustomer) \<and>
         (determineSender m = agent \<longleftrightarrow> \<not> fromCustomer \<and> isPublic) \<and>
         (determineSender m = Sender.bot \<longleftrightarrow> \<not> fromCustomer \<and> \<not> isPublic) \<and>
         (tags m' = tags m \<and>
          chain (chain (SDKMessage.from' m') application) displayName
            = chain (chain (SDKMessage.from' m) application) displayName
          \<longrightarrow> determineSender m' = determineSender m)"
  unfolding fromCustomer_def isPublic_def determineSender_def includes'_def chain_def
  by (auto split: option.splits)

lemma toLowerCase_Live_agent: "toLowerCase ''Live agent'' = ''live agent''"
  by code_simp

text \<open>
  Claim C8. The claim is the classification in priority order: tag markers, then the
  display-name heuristics (a name containing \<open>bot\<close> or \<open>virtual\<close> gives bot, a name
  containing \<open>agent\<close> gives agent), then the type and sender fields, then bot. That is
  what \<open>determineSender\<close> of \<open>SentimentAnalyticsService\<close> does. The \<open>determineSender\<close>
  of \<open>SentimentAnalysisService\<close>, which classifies the transcript that is scored, stops
  after the tags: the message of a user named \<open>Live agent\<close> with the sender field
  \<open>agent\<close> and no tags is an agent message for the claim and for the other class, and a
  bot message here.
\<close>

theorem determineSender_misses_agent:
  "determineSender agentMessage = Sender.bot \<and> determineSender' agentMessage = agent"
  by (simp add: determineSender_def determineSender'_def agentMessage_def tagsInclude_def
      fallbackSender_def chain_def includes'_def toLowerCase_Live_agent sublist_code)

subsection \<open>Survey without an AI result\<close>

lemma createCSATFromSurvey_valid:
  assumes "parseInt (response survey) = Some n" and "1 \<le> n" and "n \<le> 5"
  shows "createCSATFromSurvey survey =
           \<lparr>csatScore = n, confidence = 0.95, sentiment = mapScoreToSentiment n,
            satisfactionLevel = mapSentimentToSatisfaction [] n,
            reasoning = Some (BasedOnSurvey n), surveyResponseIncluded = Some True\<rparr>"
  using assms by (simp add: createCSATFromSurvey_def)

lemma createCSATFromSurvey_invalid:
  assumes "parseInt (response survey) = None \<or>
           (\<exists>n. parseInt (response survey) = Some n \<and> (n < 1 \<or> 5 < n))"
  shows "createCSATFromSurvey survey =
           \<lparr>csatScore = 3, confidence = 0.5, sentiment = ''neutral'',
            satisfactionLevel = ''Neutral'', reasoning = Some InvalidSurveyResponse,
            surveyResponseIncluded = Some True\<rparr>"
  using assms by (auto simp: createCSATFromSurvey_def)

lemma analyzeSentiments_disabled: "analyzeSentiments c t disabledConfig = None"
  by (simp add: analyzeSentiments_def disabledConfig_def spread_def spreadKey_def
      DEFAULT_CONFIG_def truthy_def)

lemma analyzeSentiments_keyless: "analyzeSentiments c t keylessConfig = None"
  by (simp add: analyzeSentiments_def keylessConfig_def spread_def spreadKey_def
      DEFAULT_CONFIG_def truthy_def truthyStr_def)

text \<open>
  Claim C9 says that a response which is out of range or not numeric gives the neutral
  fallback. The code reads the response with \<open>parseInt\<close>, which takes the digits a
  response starts with and ignores what follows: the responses \<open>5abc\<close> and \<open>1e3\<close>,
  neither of them a numeral, give the scores 5 and 1 with confidence 0.95, not the
  fallback.
\<close>

theorem survey_only_trailing_text_counterexample:
  "\<not> isNumeral ''5abc'' \<and>
   map_option csatScore
     (analyzeSentimentWithSurvey None [] (Some (sampleSurvey ''5abc'')) disabledConfig) = Some 5 \<and>
   map_option CSATResult.confidence
     (analyzeSentimentWithSurvey None [] (Some (sampleSurvey ''5abc'')) disabledConfig)
       = Some 0.95 \<and>
   \<not> isNumeral ''1e3'' \<and>
   map_option csatScore
     (analyzeSentimentWithSurvey None [] (Some (sampleSurvey ''1e3'')) disabledConfig) = Some 1 \<and>
   map_option CSATResult.confidence
     (analyzeSentimentWithSurvey None [] (Some (sampleSurvey ''1e3'')) disabledConfig)
       = Some 0.95"
  by (simp add: isNumeral_def analyzeSentimentWithSurvey_def analyzeSentiments_disabled
      createCSATFromSurvey_def sampleSurvey_def parseInt_eval)

text \<open>
  Claim C9, amended. For every survey response that arrives while the AI scoring produced
  no result, the pipeline returns a result built from the survey alone, never \<open>null\<close>:
  when \<open>parseInt\<close> reads from the response an integer from 1 to 5 (the digits the
  response starts with, after white space and a sign, whatever follows them) the result
  has that score and confidence 0.95; when it reads an integer out of that range (as for
  \<open>7\<close>) or finds no digit to read, the result is the neutral fallback with score 3,
  confidence 0.5 and sentiment \<open>neutral\<close>.
\<close>

theorem analyzeSentimentWithSurvey_survey_only:
  assumes "analyzeSentiments newClient transcript config = None"
  shows "\<exists>r. analyzeSentimentWithSurvey newClient transcript (Some survey) config = Some r \<and>
           r = createCSATFromSurvey survey \<and>
           (\<forall>n. parseInt (response survey) = Some n \<and> 1 \<le> n \<and> n \<le> 5 \<longrightarrow>
                csatScore r = n \<and> CSATResult.confidence r = 0.95) \<and>
           (parseInt (response survey) = None \<or>
            (\<exists>n. parseInt (response survey) = Some n \<and> (n < 1 \<or> 5 < n)) \<longrightarrow>
              csatScore r = 3 \<and> CSATResult.confidence r = 0.5 \<and>
              CSATResult.sentiment r = ''neutral'')"
proof -
  have run: "analyzeSentimentWithSurvey newClient transcript (Some survey) config
      = Some (createCSATFromSurvey survey)"
    using assms by (simp add: analyzeSentimentWithSurvey_def)
  have ok: "\<forall>n. parseInt (response survey) = Some n \<and> 1 \<le> n \<and> n \<le> 5 \<longrightarrow>
      csatScore (createCSATFromSurvey survey) = n \<and>
      CSATResult.confidence (createCSATFromSurvey survey) = 0.95"
    by (simp add: createCSATFromSurvey_valid)
  have bad: "parseInt (response survey) = None \<or>
      (\<exists>n. parseInt (response survey) = Some n \<and> (n < 1 \<or> 5 < n)) \<longrightarrow>
      csatScore (createCSATFromSurvey survey) = 3 \<and>
      CSATResult.confidence (createCSATFromSurvey survey) = 0.5 \<and>
      CSATResult.sentiment (createCSATFromSurvey survey) = ''neutral''"
    by (simp add: createCSATFromSurvey_invalid)
  from run ok bad show ?thesis by blast
qed

theorem analyzeSentimentWithSurvey_survey_only_witness:
  "(\<exists>r. analyzeSentimentWithSurvey None [] (Some (sampleSurvey ''7'')) disabledConfig = Some r \<and>
        csatScore r = 3 \<and> CSATResult.confidence r = 0.5 \<and> CSATResult.sentiment r = ''neutral'')
   \<and> (\<exists>r. analyzeSentimentWithSurvey None [] (Some (sampleSurvey ''great'')) disabledConfig = Some r \<and>
        csatScore r = 3 \<and> CSATResult.confidence r = 0.5 \<and> CSATResult.sentiment r = ''neutral'')
   \<and> (\<exists>r. analyzeSentimentWithSurvey None [] (Some (sampleSurvey ''4'')) disabledConfig = Some r \<and>
        csatScore r = 4 \<and> CSATResult.confidence r = 0.95)
   \<and> (\<exists>r. analyzeSentimentWithSurvey sampleClient [sampleChat customer ''thanks'']
              (Some (sampleSurvey ''2 stars'')) keylessConfig = Some r \<and>
        csatScore r = 2 \<and> CSATResult.confidence r = 0.95)"
proof -
  have off: "analyzeSentiments None [] disabledConfig = None"
    by (rule analyzeSentiments_disabled)
  have keyless: "analyzeSentiments sampleClient [sampleChat customer ''thanks''] keylessConfig = None"
    by (rule analyzeSentiments_keyless)
  have p7: "parseInt (response (sampleSurvey ''7'')) = Some 7"
    and pg: "parseInt (response (sampleSurvey ''great'')) = None"
    and p4: "parseInt (response (sampleSurvey ''4'')) = Some 4"
    and p2: "parseInt (response (sampleSurvey ''2 stars'')) = Some 2"
    by (simp_all add: sampleSurvey_def parseInt_eval)
  from analyzeSentimentWithSurvey_survey_only [OF off, of "sampleSurvey ''7''"] p7
  have a: "\<exists>r. analyzeSentimentWithSurvey None [] (Some (sampleSurvey ''7'')) disabledConfig = Some r \<and>
        csatScore r = 3 \<and> CSATResult.confidence r = 0.5 \<and> CSATResult.sentiment r = ''neutral''"
    by simp
  from analyzeSentimentWithSurvey_survey_only [OF off, of "sampleSurvey ''great''"] pg
  have b: "\<exists>r. analyzeSentimentWithSurvey None [] (Some (sampleSurvey ''great'')) disabledConfig = Some r \<and>
        csatScore r = 3 \<and> CSATResult.confidence r = 0.5 \<and> CSATResult.sentiment r = ''neutral''"
    by simp
  from analyzeSentimentWithSurvey_survey_only [OF off, of "sampleSurvey ''4''"] p4
  have c: "\<exists>r. analyzeSentimentWithSurvey None [] (Some (sampleSurvey ''4'')) disabledConfig = Some r \<and>
        csatScore r = 4 \<and> CSATResult.confidence r = 0.95"
    by simp
  from analyzeSentimentWithSurvey_survey_only [OF keyless, of "sampleSurvey ''2 stars''"] p2
  have d: "\<exists>r. analyzeSentimentWithSurvey sampleClient [sampleChat customer ''thanks'']
              (Some (sampleSurvey ''2 stars'')) keylessConfig = Some r \<and>
        csatScore r = 2 \<and> CSATResult.confidence r = 0.95"
    by simp
  from a b c d show ?thesis by (intro conjI)
qed

subsection \<open>Scores and labels of all results\<close>

lemma mapSentimentToSatisfaction_label:
  assumes "1 \<le> s" and "s \<le> 5"
  shows "mapSentimentToSatisfaction x s = labelOfScore s"
proof -
  from assms have "s = 1 \<or> s = 2 \<or> s = 3 \<or> s = 4 \<or> s = 5" by arith
  then show ?thesis by (auto simp: labelOfScore_def mapSentimentToSatisfaction_def)
qed

lemma parseAzureSDKResponse_wellScored:
  assumes "parseAzureSDKResponse result = Some r"
  shows "wellScored r"
proof -
  from assms obtain s where r: "csatScore r = s" "satisfactionLevel r = mapSentimentToSatisfaction (CSATResult.sentiment r) s"
    and s: "1 \<le> s" "s \<le> 5"
    by (auto simp: parseAzureSDKResponse_def Let_def split: option.splits if_splits)
  then show ?thesis
    unfolding wellScored_def using mapSentimentToSatisfaction_label [OF s] by simp
qed

lemma createCSATFromSurvey_wellScored: "wellScored (createCSATFromSurvey survey)"
proof (cases "\<exists>n. parseInt (response survey) = Some n \<and> 1 \<le> n \<and> n \<le> 5")
  case True
  then obtain n where n: "parseInt (response survey) = Some n" "1 \<le> n" "n \<le> 5" by blast
  show ?thesis
    unfolding createCSATFromSurvey_valid [OF n] wellScored_def
    using mapSentimentToSatisfaction_label [OF n(2,3), of "[]"] n(2,3) by simp
next
  case False
  then have "parseInt (response survey) = None \<or>
      (\<exists>n. parseInt (response survey) = Some n \<and> (n < 1 \<or> 5 < n))"
    by (cases "parseInt (response survey)") auto
  then show ?thesis
    unfolding wellScored_def
    by (simp add: createCSATFromSurvey_invalid labelOfScore_def)
qed


lemma combineSentimentAndSurvey_invalid:
  assumes "\<not> (\<exists>n. parseInt (response survey) = Some n \<and> 1 \<le> n \<and> n \<le> 5)"
  shows "combineSentimentAndSurvey ai survey = ai"
proof (cases "parseInt (response survey)")
  case None
  then show ?thesis by (simp add: combineSentimentAndSurvey_def)
next
  case (Some k)
  with assms have "\<not> (1 \<le> k \<and> k \<le> 5)" by simp
  then have "k < 1 \<or> 5 < k" by arith
  with Some show ?thesis by (simp add: combineSentimentAndSurvey_def)
qed

lemma combineSentimentAndSurvey_valid_wellScored:
  assumes "parseInt (response survey) = Some n" and "1 \<le> n" and "n \<le> 5"
  shows "wellScored (combineSentimentAndSurvey ai survey)"
proof -
  define fs where "fs = max 1 (min 5 (Math_round (weighted n (csatScore ai))))"
  have range: "1 \<le> fs" "fs \<le> 5"
    by (simp_all add: fs_def)
  have "csatScore (combineSentimentAndSurvey ai survey) = fs"
    and "satisfactionLevel (combineSentimentAndSurvey ai survey)
           = mapSentimentToSatisfaction [] fs"
    unfolding combineSentimentAndSurvey_valid [OF assms] fs_def by simp_all
  with range mapSentimentToSatisfaction_label [OF range] show ?thesis
    by (simp add: wellScored_def)
qed

lemma combineSentimentAndSurvey_wellScored:
  assumes "wellScored ai"
  shows "wellScored (combineSentimentAndSurvey ai survey)"
proof (cases "\<exists>n. parseInt (response survey) = Some n \<and> 1 \<le> n \<and> n \<le> 5")
  case True
  then show ?thesis by (blast intro: combineSentimentAndSurvey_valid_wellScored)
next
  case False
  with assms show ?thesis by (simp add: combineSentimentAndSurvey_invalid [OF False])
qed

lemma callSentimentAnalysis_wellScored:
  assumes "callSentimentAnalysis newClient transcript config = Some r"
  shows "wellScored r"
  using assms
  by (auto simp: callSentimentAnalysis_def split: option.splits list.splits if_splits
      intro: parseAzureSDKResponse_wellScored)

lemma analyzeSentiments_wellScored:
  assumes "analyzeSentiments newClient transcript config = Some r"
  shows "wellScored r"
  using assms
  by (auto simp: analyzeSentiments_def Let_def split: if_splits
      intro: callSentimentAnalysis_wellScored)

lemma analyzeSentimentWithSurvey_wellScored:
  assumes "analyzeSentimentWithSurvey newClient transcript survey config = Some r"
  shows "wellScored r"
proof (cases survey)
  case None
  with assms show ?thesis
    by (simp add: analyzeSentimentWithSurvey_def analyzeSentiments_wellScored)
next
  case (Some sv)
  show ?thesis
  proof (cases "analyzeSentiments newClient transcript config")
    case None
    with Some assms have "r = createCSATFromSurvey sv"
      by (simp add: analyzeSentimentWithSurvey_def)
    then show ?thesis by (simp add: createCSATFromSurvey_wellScored)
  next
    case (Some ai)
    with \<open>survey = Some sv\<close> assms have "r = combineSentimentAndSurvey ai sv"
      by (simp add: analyzeSentimentWithSurvey_def)
    moreover from Some have "wellScored ai" by (rule analyzeSentiments_wellScored)
    ultimately show ?thesis by (simp add: combineSentimentAndSurvey_wellScored)
  qed
qed

text \<open>
  Claim C10. Every result of a scoring path has a score from 1 to 5 and carries the
  satisfaction label of that score (5 Very Satisfied, 4 Satisfied, 3 Neutral,
  2 Dissatisfied, 1 Very Dissatisfied): a result of the response parser; a blend, when
  the AI result it starts from is such a result or the survey value is valid; a result
  built from the survey alone; and therefore every non-null result of the whole pipeline,
  with or without a survey.
\<close>

theorem scoring_paths_wellScored:
  "(parseAzureSDKResponse result = Some r \<longrightarrow> wellScored r) \<and>
   (wellScored ai \<or> (\<exists>n. parseInt (response survey) = Some n \<and> 1 \<le> n \<and> n \<le> 5)
      \<longrightarrow> wellScored (combineSentimentAndSurvey ai survey)) \<and>
   wellScored (createCSATFromSurvey survey') \<and>
   (analyzeSentimentWithSurvey newClient transcript optSurvey config = Some r'
      \<longrightarrow> wellScored r') \<and>
   (analyzeSentiments newClient transcript config = Some r'' \<longrightarrow> wellScored r'')"
  using parseAzureSDKResponse_wellScored combineSentimentAndSurvey_wellScored
    combineSentimentAndSurvey_valid_wellScored createCSATFromSurvey_wellScored
    analyzeSentimentWithSurvey_wellScored analyzeSentiments_wellScored
  by blast

lemma sample_parse:
  "parseAzureSDKResponse (sampleResponse ''positive'' 0.9 0.04 0.06) =
     Some \<lparr>csatScore = 5, confidence = 0.9, sentiment = ''positive'',
           satisfactionLevel = ''Very Satisfied'',
           reasoning = Some (AzureTextAnalytics ''positive'' 90),
           surveyResponseIncluded = None\<rparr>"
  by (simp add: parseAzureSDKResponse_def sampleResponse_def chain_def Let_def
      mapSentimentToSatisfaction_def)

lemma sample_analyzeSentiments:
  "analyzeSentiments sampleClient [sampleChat customer ''thanks''] None =
     Some \<lparr>csatScore = 5, confidence = 0.9, sentiment = ''positive'',
           satisfactionLevel = ''Very Satisfied'',
           reasoning = Some (AzureTextAnalytics ''positive'' 90),
           surveyResponseIncluded = None\<rparr>"
  by (simp add: analyzeSentiments_def spread_def DEFAULT_CONFIG_def truthy_def truthyStr_def
      callSentimentAnalysis_def createSentimentClient_def sampleClient_def
      parseAzureSDKResponse_def chain_def Let_def mapSentimentToSatisfaction_def)

lemma sample_pipeline:
  "analyzeSentimentWithSurvey sampleClient [sampleChat customer ''thanks'']
       (Some (sampleSurvey ''2'')) None =
     Some \<lparr>csatScore = 3, confidence = 0.95, sentiment = ''neutral'',
           satisfactionLevel = ''Neutral'',
           reasoning = Some (CombinedAnalysis 2 5),
           surveyResponseIncluded = Some True\<rparr>"
proof -
  have p: "parseInt (response (sampleSurvey ''2'')) = Some 2"
    by (simp add: sampleSurvey_def parseInt_eval)
  have w: "Math_round (weighted 2 5) = 3"
    by (simp add: Math_round_weighted)
  show ?thesis
    by (simp add: analyzeSentimentWithSurvey_def sample_analyzeSentiments
        combineSentimentAndSurvey_valid [OF p] w
        mapSentimentToSatisfaction_def mapScoreToSentiment_def)
qed

theorem scoring_paths_wellScored_witness:
  "(\<exists>r. parseAzureSDKResponse (sampleResponse ''positive'' 0.9 0.04 0.06) = Some r \<and>
        wellScored r \<and> csatScore r = 5 \<and> satisfactionLevel r = ''Very Satisfied'')
   \<and> wellScored (combineSentimentAndSurvey (sampleAI 4 0.6) (sampleSurvey ''5''))
   \<and> wellScored (createCSATFromSurvey (sampleSurvey ''7''))
   \<and> (\<exists>r. analyzeSentimentWithSurvey sampleClient [sampleChat customer ''thanks'']
              (Some (sampleSurvey ''2'')) None = Some r \<and>
        wellScored r \<and> csatScore r = 3 \<and> satisfactionLevel r = ''Neutral'')"
proof -
  let ?r1 = "\<lparr>csatScore = 5, confidence = 0.9, sentiment = ''positive'',
           satisfactionLevel = ''Very Satisfied'',
           reasoning = Some (AzureTextAnalytics ''positive'' 90),
           surveyResponseIncluded = None\<rparr>"
  let ?r2 = "\<lparr>csatScore = 3, confidence = 0.95, sentiment = ''neutral'',
           satisfactionLevel = ''Neutral'',
           reasoning = Some (CombinedAnalysis 2 5),
           surveyResponseIncluded = Some True\<rparr>"
  have p: "\<exists>n. parseInt (response (sampleSurvey ''5'')) = Some n \<and> 1 \<le> n \<and> n \<le> 5"
    by (simp add: sampleSurvey_def parseInt_eval)
  note t = scoring_paths_wellScored
    [of "sampleResponse ''positive'' 0.9 0.04 0.06" ?r1 "sampleAI 4 0.6" "sampleSurvey ''5''"
        "sampleSurvey ''7''" sampleClient "[sampleChat customer ''thanks'']"
        "Some (sampleSurvey ''2'')" None ?r2 ?r1]
  from t sample_parse have a: "wellScored ?r1" by blast
  from t p have b: "wellScored (combineSentimentAndSurvey (sampleAI 4 0.6) (sampleSurvey ''5''))"
    by blast
  from t have c: "wellScored (createCSATFromSurvey (sampleSurvey ''7''))" by blast
  from t sample_pipeline have d: "wellScored ?r2" by blast
  from a sample_parse have a': "\<exists>r. parseAzureSDKResponse (sampleResponse ''positive'' 0.9 0.04 0.06) = Some r \<and>
        wellScored r \<and> csatScore r = 5 \<and> satisfactionLevel r = ''Very Satisfied''"
    by simp
  from d sample_pipeline have d': "\<exists>r. analyzeSentimentWithSurvey sampleClient [sampleChat customer ''thanks'']
              (Some (sampleSurvey ''2'')) None = Some r \<and>
        wellScored r \<and> csatScore r = 3 \<and> satisfactionLevel r = ''Neutral''"
    by simp
  from a' b c d' show ?thesis by (intro conjI)
qed

end
